theory Spec2Isabelle
  imports Complex_Main
begin

section \<open>Data model\<close>

text \<open>
  Errors thrown by the code. \<open>Error msg\<close> is \<^verbatim>\<open>new Error(msg)\<close>; \<open>TypeError\<close> and
  \<open>RangeError\<close> are the errors the JavaScript runtime itself throws (reading a property
  of \<^verbatim>\<open>undefined\<close>, assigning a non-numeric value to an array's \<^verbatim>\<open>length\<close>);
  \<open>StorageError\<close> is whatever the data storage's \<^verbatim>\<open>Query\<close> throws.
\<close>

datatype js_error = TypeError | RangeError | Error string | StorageError string

text \<open>
  A row of a query result: \<^verbatim>\<open>result.DATE\<close>, \<^verbatim>\<open>result.AVG_BUILD_TIME\<close> (nullable) and
  \<^verbatim>\<open>result[this.groupByColumn]\<close>, a column other than the first two. The group column
  holds a string; \<open>None\<close> stands for an absent (\<^verbatim>\<open>undefined\<close>) or \<^verbatim>\<open>null\<close> field. The
  code only copies the date and the average, so their types are left open.
\<close>

record ('d, 'v) RawRow =
  DATE :: 'd
  AVG_BUILD_TIME :: "'v option"
  groupField :: "string option"

text \<open>
  Modelled from the spec: \<^verbatim>\<open>Plotly.GetTraceLineData(title, x, y, width)\<close> is not among
  the sources. The spec's TraceLine is \<open>{name, xValues, yValues, lineWidth}\<close>; the object
  the code gets back holds the title, the two arrays it pushes to (\<^verbatim>\<open>.x\<close>, \<^verbatim>\<open>.y\<close>) and
  the width.
\<close>

record ('d, 'v) TraceLine =
  name :: string
  xValues :: "'d list"
  yValues :: "'v option list"
  lineWidth :: nat

definition GetTraceLineData ::
  "string \<Rightarrow> 'd list \<Rightarrow> 'v option list \<Rightarrow> nat \<Rightarrow> ('d, 'v) TraceLine" where
  "GetTraceLineData title0 xs ys w =
     \<lparr>name = title0, xValues = xs, yValues = ys, lineWidth = w\<rparr>"

text \<open>
  The mapper object (\<^verbatim>\<open>this\<close>): the fields of \<^verbatim>\<open>KpiMapper\<close> and of
  \<^verbatim>\<open>BuildTimeFromQueueSegmentKpiMapper\<close>. The two goals and the table name come from
  the configuration, which is not among the sources, so they are fields here.
\<close>

record Mapper =
  Title :: string
  chartFromDate :: string
  chartToDate :: string
  groupByColumn :: string
  filterColumn :: string
  filterValue :: string
  yAxisTitle :: string
  targetGoal :: int
  stretchGoal :: int
  tablename :: string

text \<open>
  The returned \<^verbatim>\<open>IKpiState\<close>. Modelled from the spec: the \<^verbatim>\<open>Plotly\<close> helpers
  (\<^verbatim>\<open>GetLegendInfo\<close>, \<^verbatim>\<open>GetDateXAxis\<close>, \<^verbatim>\<open>GetYAxis\<close>, \<^verbatim>\<open>GetShapesFromGoals\<close>) are
  not among the sources; the payload keeps the arguments the code passes to them
  (the spec's \<open>xAxisBounds\<close>, \<open>yAxisTitle\<close>, \<open>goalThresholds\<close>).
\<close>

record ('d, 'v) IKpiState =
  data :: "('d, 'v) TraceLine list"
  title :: string
  showlegend :: bool
  xaxis :: "string \<times> string"
  yaxis :: string
  shapes :: "int \<times> int"
  displayModeBar :: bool

section \<open>The array \<^verbatim>\<open>traceLines\<close> used as a dictionary\<close>

text \<open>
  \<^verbatim>\<open>var traceLines: any = []\<close> is a JavaScript array whose properties are set by name.
  The model keeps the properties the loop creates, in creation order. Besides them the
  array has its own \<^verbatim>\<open>length\<close> and whatever it inherits from its prototype chain
  (\<^verbatim>\<open>push\<close>, \<^verbatim>\<open>constructor\<close>, ...): the set of inherited names belongs to the runtime
  and is a parameter \<open>inherited\<close> of the model; every inherited value is a function or an
  object, hence truthy.
\<close>

type_synonym ('d, 'v) traceLines = "(string \<times> ('d, 'v) TraceLine) list"

definition digitValue :: "char \<Rightarrow> nat" where
  "digitValue c = length (takeWhile (\<lambda>d. d \<noteq> c) ''0123456789'')"

definition isDigit :: "char \<Rightarrow> bool" where
  "isDigit c = (digitValue c < 10)"

definition decimalValue :: "string \<Rightarrow> nat" where
  "decimalValue s = foldl (\<lambda>n c. 10 * n + digitValue c) 0 s"

text \<open>
  An array index is a property name that is the canonical decimal form of an integer
  from 0 to \<open>2^32 - 2\<close>: digits only, no leading zero.
\<close>

definition isArrayIndex :: "string \<Rightarrow> bool" where
  "isArrayIndex k =
     (case k of
        [] \<Rightarrow> False
      | c # cs \<Rightarrow> list_all isDigit k \<and> (if c = CHR ''0'' then cs = [] else True)
                 \<and> decimalValue k < 4294967295)"

text \<open>The array's \<^verbatim>\<open>length\<close>: one more than its largest index, 0 without indices.\<close>

definition arrayLength :: "('d, 'v) traceLines \<Rightarrow> nat" where
  "arrayLength tls =
     foldr (\<lambda>k n. max (Suc (decimalValue k)) n) (filter isArrayIndex (map fst tls)) 0"

text \<open>What \<^verbatim>\<open>traceLines[k]\<close> reads.\<close>

datatype ('d, 'v) js_prop =
  Undefined
  | Line "('d, 'v) TraceLine"
  | Number nat
  | Builtin

definition getProp ::
  "(string \<Rightarrow> bool) \<Rightarrow> ('d, 'v) traceLines \<Rightarrow> string \<Rightarrow> ('d, 'v) js_prop" where
  "getProp inherited tls k =
     (case map_of tls k of
        Some t \<Rightarrow> Line t
      | None \<Rightarrow>
          if k = ''length'' then Number (arrayLength tls)
          else if inherited k then Builtin
          else Undefined)"

fun falsy :: "('d, 'v) js_prop \<Rightarrow> bool" where
  "falsy Undefined = True"
| "falsy (Number n) = (n = 0)"
| "falsy (Line t) = False"
| "falsy Builtin = False"

text \<open>
  \<^verbatim>\<open>traceLines[k] = line\<close>: assigning an object to \<^verbatim>\<open>length\<close> throws a RangeError;
  any other name becomes a new own property (the code assigns only when the name has no
  truthy value yet, so never over a line it created).
\<close>

definition setProp ::
  "('d, 'v) traceLines \<Rightarrow> string \<Rightarrow> ('d, 'v) TraceLine \<Rightarrow> js_error + ('d, 'v) traceLines" where
  "setProp tls k t =
     (if k = ''length'' then Inl RangeError
      else if k \<in> set (map fst tls)
        then Inr (map (\<lambda>(k', t'). if k' = k then (k', t) else (k', t')) tls)
      else Inr (tls @ [(k, t)]))"

text \<open>
  \<^verbatim>\<open>for (let splitColumn in traceLines)\<close> visits the own enumerable property names:
  the array indices in ascending numeric order first, then the other names in the order
  they were created. \<^verbatim>\<open>length\<close> and the inherited built-ins are not enumerable.
\<close>

definition forInKeys :: "string list \<Rightarrow> string list" where
  "forInKeys ks =
     sort_key decimalValue (filter isArrayIndex ks) @ filter (\<lambda>k. \<not> isArrayIndex k) ks"

section \<open>\<^verbatim>\<open>mapToKpiStateOrNull\<close>\<close>

text \<open>
  \<^verbatim>\<open>!result[this.groupByColumn]\<close>: an absent or null field and the empty string are
  falsy.
\<close>

definition fieldFalsy :: "string option \<Rightarrow> bool" where
  "fieldFalsy v = (case v of None \<Rightarrow> True | Some s \<Rightarrow> s = [])"

text \<open>
  \<^verbatim>\<open>if (!result[this.groupByColumn]) { result[this.groupByColumn] = "Overall"; }\<close>
  writes into the row object.
\<close>

definition setOverall :: "('d, 'v) RawRow \<Rightarrow> ('d, 'v) RawRow" where
  "setOverall r = (if fieldFalsy (groupField r) then r\<lparr>groupField := Some ''Overall''\<rparr> else r)"

text \<open>The property name \<^verbatim>\<open>result[this.groupByColumn]\<close> gives when used as a key.\<close>

definition groupKey :: "('d, 'v) RawRow \<Rightarrow> string" where
  "groupKey r = (case groupField r of None \<Rightarrow> ''undefined'' | Some s \<Rightarrow> s)"

text \<open>
  \<^verbatim>\<open>if (!traceLines[k]) { traceLines[k] = Plotly.GetTraceLineData(k, [], [], w); }\<close>
\<close>

definition ensureTraceLine ::
  "(string \<Rightarrow> bool) \<Rightarrow> string \<Rightarrow> ('d, 'v) traceLines \<Rightarrow> js_error + ('d, 'v) traceLines" where
  "ensureTraceLine inherited k tls =
     (if falsy (getProp inherited tls k)
      then setProp tls k (GetTraceLineData k [] [] (if k = ''Overall'' then 3 else 1))
      else Inr tls)"

text \<open>
  \<^verbatim>\<open>traceLines[k].x.push(result.DATE); traceLines[k].y.push(result.AVG_BUILD_TIME);\<close>
  Only a trace line has \<^verbatim>\<open>.x\<close>; on a number or a built-in \<^verbatim>\<open>.x\<close> is undefined and
  \<^verbatim>\<open>.push\<close> on it throws a TypeError.
\<close>

definition pushPoint ::
  "(string \<Rightarrow> bool) \<Rightarrow> string \<Rightarrow> 'd \<Rightarrow> 'v option \<Rightarrow> ('d, 'v) traceLines
    \<Rightarrow> js_error + ('d, 'v) traceLines" where
  "pushPoint inherited k d v tls =
     (case getProp inherited tls k of
        Line t \<Rightarrow>
          Inr (map (\<lambda>(k', t'). if k' = k
                 then (k', t'\<lparr>xValues := xValues t' @ [d], yValues := yValues t' @ [v]\<rparr>)
                 else (k', t')) tls)
      | Undefined \<Rightarrow> Inl TypeError
      | Number n \<Rightarrow> Inl TypeError
      | Builtin \<Rightarrow> Inl TypeError)"

text \<open>
  The body of the inner loop for one row: the row as the body leaves it, and the
  updated \<^verbatim>\<open>traceLines\<close> or the error thrown.
\<close>

definition addResult ::
  "(string \<Rightarrow> bool) \<Rightarrow> ('d, 'v) RawRow \<Rightarrow> ('d, 'v) traceLines
    \<Rightarrow> ('d, 'v) RawRow \<times> (js_error + ('d, 'v) traceLines)" where
  "addResult inherited r tls =
     (let r' = setOverall r; k = groupKey r'
      in (r', case ensureTraceLine inherited k tls of
                Inl e \<Rightarrow> Inl e
              | Inr tls' \<Rightarrow> pushPoint inherited k (DATE r') (AVG_BUILD_TIME r') tls'))"

text \<open>\<^verbatim>\<open>for (let result of jsonArrays[i])\<close>; a throw leaves the rest of the rows untouched.\<close>

fun addResults ::
  "(string \<Rightarrow> bool) \<Rightarrow> ('d, 'v) RawRow list \<Rightarrow> ('d, 'v) traceLines
    \<Rightarrow> ('d, 'v) RawRow list \<times> (js_error + ('d, 'v) traceLines)" where
  "addResults inherited [] tls = ([], Inr tls)"
| "addResults inherited (r # rs) tls =
     (case addResult inherited r tls of
        (r', Inl e) \<Rightarrow> (r' # rs, Inl e)
      | (r', Inr tls') \<Rightarrow>
          (case addResults inherited rs tls' of (rs', res) \<Rightarrow> (r' # rs', res)))"

text \<open>
  \<^verbatim>\<open>for (let i in jsonArrays)\<close>, with
  \<^verbatim>\<open>if (jsonArrays[i].length < 2) { continue; }\<close> at the head of the body.
\<close>

fun addSequences ::
  "(string \<Rightarrow> bool) \<Rightarrow> ('d, 'v) RawRow list list \<Rightarrow> ('d, 'v) traceLines
    \<Rightarrow> ('d, 'v) RawRow list list \<times> (js_error + ('d, 'v) traceLines)" where
  "addSequences inherited [] tls = ([], Inr tls)"
| "addSequences inherited (s # ss) tls =
     (if length s < 2
      then (case addSequences inherited ss tls of (ss', res) \<Rightarrow> (s # ss', res))
      else (case addResults inherited s tls of
              (s', Inl e) \<Rightarrow> (s' # ss, Inl e)
            | (s', Inr tls') \<Rightarrow>
                (case addSequences inherited ss tls' of (ss', res) \<Rightarrow> (s' # ss', res))))"

text \<open>
  \<^verbatim>\<open>for (let splitColumn in traceLines) { data.push(traceLines[splitColumn]); }\<close>
\<close>

definition collectData :: "('d, 'v) traceLines \<Rightarrow> ('d, 'v) TraceLine list" where
  "collectData tls =
     concat (map (\<lambda>k. case map_of tls k of Some t \<Rightarrow> [t] | None \<Rightarrow> [])
               (forInKeys (map fst tls)))"

definition kpiState :: "Mapper \<Rightarrow> ('d, 'v) TraceLine list \<Rightarrow> ('d, 'v) IKpiState" where
  "kpiState m d =
     \<lparr>data = d, title = Title m, showlegend = True,
      xaxis = (chartFromDate m, chartToDate m), yaxis = yAxisTitle m,
      shapes = (targetGoal m, stretchGoal m), displayModeBar = False\<rparr>"

text \<open>
  The gate \<^verbatim>\<open>jsonArrays[0].length < 2 || jsonArrays[1].length < 6\<close> reads
  \<^verbatim>\<open>.length\<close> of \<^verbatim>\<open>undefined\<close> (a TypeError) when the sequence it looks at is missing.
  The result is the row sequences as the call leaves them, and the error thrown or the
  value returned (\<open>None\<close> is \<^verbatim>\<open>null\<close>).
\<close>

definition mapToKpiStateOrNull ::
  "Mapper \<Rightarrow> (string \<Rightarrow> bool) \<Rightarrow> ('d, 'v) RawRow list list
    \<Rightarrow> ('d, 'v) RawRow list list \<times> (js_error + ('d, 'v) IKpiState option)" where
  "mapToKpiStateOrNull m inherited jsonArrays =
     (case jsonArrays of
        [] \<Rightarrow> (jsonArrays, Inl TypeError)
      | a # rest \<Rightarrow>
          if length a < 2 then (jsonArrays, Inr None)
          else (case rest of
                  [] \<Rightarrow> (jsonArrays, Inl TypeError)
                | b # _ \<Rightarrow>
                    if length b < 6 then (jsonArrays, Inr None)
                    else (case addSequences inherited jsonArrays [] of
                            (rows, Inl e) \<Rightarrow> (rows, Inl e)
                          | (rows, Inr tls) \<Rightarrow>
                              (rows, Inr (Some (kpiState m (collectData tls)))))))"

section \<open>\<^verbatim>\<open>getQueryStrings\<close>\<close>

text \<open>
  A number inside a template string: the decimal digits of an integer, with a minus
  sign when negative.
\<close>

fun showNat :: "nat \<Rightarrow> string" where
  "showNat n =
     (if n < 10 then [''0123456789'' ! n]
      else showNat (n div 10) @ [''0123456789'' ! (n mod 10)])"

declare showNat.simps [simp del]

definition showInt :: "int \<Rightarrow> string" where
  "showInt i = (if i < 0 then CHR ''-'' # showNat (nat (- i)) else showNat (nat i))"

definition quoted :: "string \<Rightarrow> string" where
  "quoted s = [CHR 0x27] @ s @ [CHR 0x27]"

definition dquoted :: "string \<Rightarrow> string" where
  "dquoted s = [CHR 0x22] @ s @ [CHR 0x22]"

text \<open>
  The three local constants of \<^verbatim>\<open>getQueryStrings\<close>:
  \<^verbatim>\<open>movingAveragePeriod = SimpleMovingAveragePeriod.GetPeriod(dateRange)\<close>,
  \<^verbatim>\<open>minPrevDayData = Math.floor(movingAveragePeriod / 2)\<close> and
  \<^verbatim>\<open>nPrevDays = movingAveragePeriod - 1\<close>. \<^verbatim>\<open>SimpleMovingAveragePeriod\<close> is not
  among the sources: \<open>GetPeriod\<close> is a parameter, integer-valued as the spec's
  MovingAveragePeriod is. The division is JavaScript's division of numbers, exact on
  these operands, followed by \<^verbatim>\<open>Math.floor\<close>.
\<close>

definition movingAveragePeriod :: "(int \<Rightarrow> int) \<Rightarrow> int \<Rightarrow> int" where
  "movingAveragePeriod GetPeriod dateRange = GetPeriod dateRange"

definition minPrevDayData :: "(int \<Rightarrow> int) \<Rightarrow> int \<Rightarrow> int" where
  "minPrevDayData GetPeriod dateRange =
     \<lfloor>rat_of_int (movingAveragePeriod GetPeriod dateRange) / 2\<rfloor>"

definition nPrevDays :: "(int \<Rightarrow> int) \<Rightarrow> int \<Rightarrow> int" where
  "nPrevDays GetPeriod dateRange = movingAveragePeriod GetPeriod dateRange - 1"

definition filterCondition :: "Mapper \<Rightarrow> string" where
  "filterCondition m =
     (if filterColumn m = [] \<or> filterValue m = [] then []
      else ''AND '' @ filterColumn m @ '' = '' @ filterValue m)"

text \<open>
  The query texts. Each run of line breaks and indentation of the template is written
  as one space; \<open>lookback\<close> and \<open>coverage\<close> are the places where the templates insert
  \<^verbatim>\<open>${nPrevDays}\<close> and \<^verbatim>\<open>${minPrevDayData}\<close>.
\<close>

definition dailyAvgBuildTimeSubquery :: "Mapper \<Rightarrow> string \<Rightarrow> string \<Rightarrow> int \<Rightarrow> string" where
  "dailyAvgBuildTimeSubquery m from0 to0 lookback =
     ''( SELECT BUILD_COMPLETED_DATE AS '' @ quoted ''BUILD_DATE''
     @ '' ,AVG(MINUTES_TOTAL_QUEUE_AND_BUILD) AS '' @ quoted ''AVG_BUILD_TIME''
     @ '' FROM '' @ tablename m
     @ '' WHERE (BUILD_COMPLETED_DATE BETWEEN DATE_SUB('' @ quoted from0
     @ '', INTERVAL '' @ showInt lookback @ '' DAY) AND '' @ quoted to0 @ '') ''
     @ filterCondition m
     @ '' GROUP BY BUILD_DATE )''"

definition dailyAvgBuildTimeGroupedSubquery ::
  "Mapper \<Rightarrow> string \<Rightarrow> string \<Rightarrow> int \<Rightarrow> string" where
  "dailyAvgBuildTimeGroupedSubquery m from0 to0 lookback =
     ''( SELECT BUILD_COMPLETED_DATE AS '' @ quoted ''BUILD_DATE''
     @ '' ,AVG(MINUTES_TOTAL_QUEUE_AND_BUILD) AS '' @ quoted ''AVG_BUILD_TIME''
     @ '' ,'' @ groupByColumn m
     @ '' FROM '' @ tablename m
     @ '' WHERE (BUILD_COMPLETED_DATE BETWEEN DATE_SUB('' @ quoted from0
     @ '', INTERVAL '' @ showInt lookback @ '' DAY) AND '' @ quoted to0 @ '') ''
     @ filterCondition m
     @ '' GROUP BY BUILD_DATE, '' @ groupByColumn m @ '' )''"

definition overallQuery :: "Mapper \<Rightarrow> string \<Rightarrow> string \<Rightarrow> int \<Rightarrow> string" where
  "overallQuery m from0 to0 lookback =
     '' SELECT T1.BUILD_DATE AS '' @ quoted ''DATE''
     @ '' ,AVG(T2.AVG_BUILD_TIME) AS '' @ quoted ''AVG_BUILD_TIME''
     @ '' FROM '' @ dailyAvgBuildTimeSubquery m from0 to0 lookback @ '' T1''
     @ '' LEFT JOIN '' @ dailyAvgBuildTimeSubquery m from0 to0 lookback @ '' T2''
     @ '' ON T2.BUILD_DATE BETWEEN DATE_SUB(T1.BUILD_DATE, INTERVAL ''
     @ showInt lookback @ '' DAY) AND T1.BUILD_DATE''
     @ '' WHERE T1.BUILD_DATE BETWEEN '' @ quoted from0 @ '' AND '' @ quoted to0
     @ '' GROUP BY DATE ORDER BY DATE ASC ''"

definition groupedQuery :: "Mapper \<Rightarrow> string \<Rightarrow> string \<Rightarrow> int \<Rightarrow> int \<Rightarrow> string" where
  "groupedQuery m from0 to0 lookback coverage =
     '' SELECT T1.BUILD_DATE AS '' @ quoted ''DATE''
     @ '' ,CASE WHEN COUNT(T2.BUILD_DATE) < '' @ showInt coverage
     @ '' THEN NULL ELSE AVG(T2.AVG_BUILD_TIME) END AS '' @ quoted ''AVG_BUILD_TIME''
     @ '' ,T1.'' @ groupByColumn m @ '' AS '' @ quoted (groupByColumn m)
     @ '' FROM '' @ dailyAvgBuildTimeGroupedSubquery m from0 to0 lookback @ '' T1''
     @ '' LEFT JOIN '' @ dailyAvgBuildTimeGroupedSubquery m from0 to0 lookback @ '' T2''
     @ '' ON ( T2.BUILD_DATE BETWEEN DATE_SUB(T1.BUILD_DATE, INTERVAL ''
     @ showInt lookback @ '' DAY) AND T1.BUILD_DATE )''
     @ '' AND ( T2.'' @ groupByColumn m @ '' = T1.'' @ groupByColumn m @ '' )''
     @ '' WHERE T1.BUILD_DATE BETWEEN '' @ quoted from0 @ '' AND '' @ quoted to0
     @ '' GROUP BY DATE, '' @ groupByColumn m
     @ '' ORDER BY '' @ groupByColumn m @ '' ASC, DATE ASC ''"

definition getQueryStrings ::
  "(int \<Rightarrow> int) \<Rightarrow> Mapper \<Rightarrow> string \<Rightarrow> string \<Rightarrow> int \<Rightarrow> string list" where
  "getQueryStrings GetPeriod m from0 to0 dateRange =
     [overallQuery m from0 to0 (nPrevDays GetPeriod dateRange),
      groupedQuery m from0 to0 (nPrevDays GetPeriod dateRange)
        (minPrevDayData GetPeriod dateRange)]"

definition getStartDateQuery :: "Mapper \<Rightarrow> string" where
  "getStartDateQuery m =
     '' SELECT MIN(BUILD_COMPLETED_DATE) AS '' @ quoted ''DATE''
     @ '' FROM '' @ tablename m @ ''; ''"

definition getEndDateQuery :: "Mapper \<Rightarrow> string" where
  "getEndDateQuery m =
     '' SELECT MAX(BUILD_COMPLETED_DATE) AS '' @ quoted ''DATE''
     @ '' FROM '' @ tablename m @ ''; ''"

section \<open>\<^verbatim>\<open>KpiMapper\<close>\<close>

text \<open>
  A \<^verbatim>\<open>Date\<close> is its time value, the milliseconds since the epoch (valid dates only).
  \<^verbatim>\<open>moment.utc(d)\<close> wraps a copy of it; \<^verbatim>\<open>a.diff(b, "days")\<close> is the difference in
  days with the fraction cut off towards zero; \<^verbatim>\<open>subtract(2, "day")\<close> on a UTC moment
  takes off twice 86400000 ms.
\<close>

type_synonym Date = int

definition msPerDay :: int where
  "msPerDay = 86400000"

definition diffDays :: "Date \<Rightarrow> Date \<Rightarrow> int" where
  "diffDays a b =
     (if a - b < 0 then - ((b - a) div msPerDay) else (a - b) div msPerDay)"

definition GetDateRange :: "Date \<Rightarrow> Date \<Rightarrow> int" where
  "GetDateRange from0 to0 = diffDays to0 from0 + 1"

text \<open>
  \<^verbatim>\<open>for (let sql of sqls) { jsonArrayResults.push(await this.dataStorage.Query(sql)); }\<close>
  The storage answers a query with rows or throws.
\<close>

fun runQueries ::
  "(string \<Rightarrow> js_error + 'r list) \<Rightarrow> string list \<Rightarrow> js_error + 'r list list" where
  "runQueries Query [] = Inr []"
| "runQueries Query (sql # sqls) =
     (case Query sql of
        Inl e \<Rightarrow> Inl e
      | Inr rows \<Rightarrow>
          (case runQueries Query sqls of Inl e \<Rightarrow> Inl e | Inr rest \<Rightarrow> Inr (rows # rest)))"

text \<open>
  \<^verbatim>\<open>GetKpiStateOrNull\<close>. The two abstract methods and the storage are parameters;
  \<open>formatCharts\<close> and \<open>formatMysql\<close> are \<^verbatim>\<open>.format(config.dateformat.charts)\<close> and
  \<^verbatim>\<open>.format(config.dateformat.mysql)\<close> (the formats are configuration). The result is
  the mapper with its two chart dates set, and the error thrown or the value returned.
\<close>

definition GetKpiStateOrNull ::
  "(Date \<Rightarrow> string) \<Rightarrow> (Date \<Rightarrow> string)
    \<Rightarrow> (Mapper \<Rightarrow> string \<Rightarrow> string \<Rightarrow> int \<Rightarrow> string list)
    \<Rightarrow> (Mapper \<Rightarrow> 'r list list \<Rightarrow> 'r list list \<times> (js_error + 'p option))
    \<Rightarrow> (string \<Rightarrow> js_error + 'r list)
    \<Rightarrow> Mapper \<Rightarrow> Date \<Rightarrow> Date \<Rightarrow> Mapper \<times> (js_error + 'p option)" where
  "GetKpiStateOrNull formatCharts formatMysql getQueryStrings0 mapToKpiStateOrNull0 Query
      m from0 to0 =
     (let fromDate = from0;
          toDate = to0;
          m' = m\<lparr>chartFromDate := formatCharts fromDate, chartToDate := formatCharts toDate\<rparr>;
          fromDate' = fromDate - 2 * msPerDay;
          sqls = getQueryStrings0 m' (formatMysql fromDate') (formatMysql toDate)
                   (GetDateRange from0 to0)
      in (m', case runQueries Query sqls of
                Inl err \<Rightarrow> Inl err
              | Inr jsonArrayResults \<Rightarrow> snd (mapToKpiStateOrNull0 m' jsonArrayResults)))"

text \<open>
  What \<^verbatim>\<open>GetStartDate\<close> and \<^verbatim>\<open>GetEndDate\<close> write: \<^verbatim>\<open>console.log(text)\<close> and
  \<^verbatim>\<open>Log(err, context)\<close>, the logging collaborator (taken to return normally).
\<close>

record Sinks =
  console :: "string list"
  logged :: "(js_error \<times> string) list"

text \<open>
  The values the \<^verbatim>\<open>DATE\<close> field of the single row of a date query can hold: the
  field may be absent (\<^verbatim>\<open>undefined\<close>) or \<^verbatim>\<open>null\<close>, or hold a boolean, a number,
  a string or a \<^verbatim>\<open>Date\<close> object (given by its time value). A number is an integer or
  \<^verbatim>\<open>NaN\<close>; a number with a fraction is truthy like any other non-zero number and is
  left out.
\<close>

datatype js_value =
  JsUndefined
  | JsNull
  | JsBool bool
  | JsNumber int
  | JsNaN
  | JsString string
  | JsDate Date

text \<open>\<^verbatim>\<open>!value\<close>: the falsy values of JavaScript.\<close>

fun jsFalsy :: "js_value \<Rightarrow> bool" where
  "jsFalsy JsUndefined = True"
| "jsFalsy JsNull = True"
| "jsFalsy (JsBool b) = (\<not> b)"
| "jsFalsy (JsNumber n) = (n = 0)"
| "jsFalsy JsNaN = True"
| "jsFalsy (JsString t) = (t = [])"
| "jsFalsy (JsDate d) = False"

text \<open>
  \<^verbatim>\<open>GetStartDate\<close> and \<^verbatim>\<open>GetEndDate\<close>. \<open>newDate\<close> is \<^verbatim>\<open>new Date(value)\<close>, which
  never throws.
\<close>

definition GetStartDate ::
  "(string \<Rightarrow> js_error + (js_value, 'v) RawRow list) \<Rightarrow> (js_value \<Rightarrow> Date)
    \<Rightarrow> Mapper \<Rightarrow> Sinks \<Rightarrow> Sinks \<times> (js_error + Date)" where
  "GetStartDate Query newDate m s =
     (let query = getStartDateQuery m
      in case Query query of
           Inl err \<Rightarrow> (s, Inl err)
         | Inr results \<Rightarrow>
             if length results \<noteq> 1 then
               (let err = Error (''kpi '' @ Title m @ '': start date query must return only 1 result.'')
                in (s\<lparr>console := console s @ [''kpi '' @ Title m
                         @ '': start date query must return only 1 result. Error has been logged.''],
                      logged := logged s @ [(err, ''query: '' @ query)]\<rparr>, Inl err))
             else if jsFalsy (DATE (hd results)) then
               (let err = Error (''kpi '' @ Title m
                            @ '': start date query must return a '' @ dquoted ''DATE'' @ '' column.'')
                in (s\<lparr>console := console s @ [''kpi '' @ Title m
                         @ '': start date query must return a '' @ dquoted ''DATE''
                         @ '' column. Error has been logged.''],
                      logged := logged s @ [(err, ''query: '' @ query)]\<rparr>, Inl err))
             else (s, Inr (newDate (DATE (hd results)))))"

definition GetEndDate ::
  "(string \<Rightarrow> js_error + (js_value, 'v) RawRow list) \<Rightarrow> (js_value \<Rightarrow> Date)
    \<Rightarrow> Mapper \<Rightarrow> Sinks \<Rightarrow> Sinks \<times> (js_error + Date)" where
  "GetEndDate Query newDate m s =
     (let query = getEndDateQuery m
      in case Query query of
           Inl err \<Rightarrow> (s, Inl err)
         | Inr results \<Rightarrow>
             if length results \<noteq> 1 then
               (let err = Error (''kpi '' @ Title m @ '': end date query must return only 1 result.'')
                in (s\<lparr>console := console s @ [''kpi '' @ Title m
                         @ '': end date query must return only 1 result. Error has been logged.''],
                      logged := logged s @ [(err, ''query: '' @ query)]\<rparr>, Inl err))
             else if jsFalsy (DATE (hd results)) then
               (let err = Error (''kpi '' @ Title m
                            @ '': end date query must return a '' @ dquoted ''DATE'' @ '' column.'')
                in (s\<lparr>console := console s @ [''kpi '' @ Title m
                         @ '': end date query must return a '' @ dquoted ''DATE''
                         @ '' column. Error has been logged.''],
                      logged := logged s @ [(err, ''query: '' @ query)]\<rparr>, Inl err))
             else (s, Inr (newDate (DATE (hd results)))))"

section \<open>What the assembly is measured against\<close>

text \<open>
  The resolved group name of a row, in the spec's words: an absent or empty group
  field gives \<open>Overall\<close>, any other field its literal value.
\<close>

definition groupName :: "('d, 'v) RawRow \<Rightarrow> string" where
  "groupName r =
     (case groupField r of None \<Rightarrow> ''Overall'' | Some s \<Rightarrow> if s = [] then ''Overall'' else s)"

text \<open>The elements of a list in the order of their first occurrence.\<close>

definition firstSightings :: "'a list \<Rightarrow> 'a list" where
  "firstSightings xs = rev (remdups (rev xs))"

text \<open>
  The trace line of group \<open>g\<close> over the rows \<open>ps\<close>: the dates and averages of the rows
  of that group, in row order.
\<close>

definition lineFor :: "('d, 'v) RawRow list \<Rightarrow> string \<Rightarrow> ('d, 'v) TraceLine" where
  "lineFor ps g =
     \<lparr>name = g,
      xValues = map DATE (filter (\<lambda>r. groupName r = g) ps),
      yValues = map AVG_BUILD_TIME (filter (\<lambda>r. groupName r = g) ps),
      lineWidth = (if g = ''Overall'' then 3 else 1)\<rparr>"

text \<open>The rows of the sequences that have at least 2 rows, in order.\<close>

definition processedRows :: "('d, 'v) RawRow list list \<Rightarrow> ('d, 'v) RawRow list" where
  "processedRows jsonArrays = concat (filter (\<lambda>s. 2 \<le> length s) jsonArrays)"

text \<open>
  The names the array answers to before the loop creates anything: its own
  \<^verbatim>\<open>length\<close> and the inherited ones.
\<close>

definition reserved :: "(string \<Rightarrow> bool) \<Rightarrow> string \<Rightarrow> bool" where
  "reserved inherited k = (if k = ''length'' then True else inherited k)"

definition linesOf :: "('d, 'v) RawRow list \<Rightarrow> ('d, 'v) traceLines" where
  "linesOf ps = map (\<lambda>g. (g, lineFor ps g)) (firstSightings (map groupName ps))"

text \<open>The row sequences after a run of the loop that did not throw.\<close>

definition rowsAfter :: "('d, 'v) RawRow list list \<Rightarrow> ('d, 'v) RawRow list list" where
  "rowsAfter jsonArrays = map (\<lambda>s. if length s < 2 then s else map setOverall s) jsonArrays"

section \<open>Example inputs\<close>

definition exampleMapper :: Mapper where
  "exampleMapper =
     \<lparr>Title = ''Build Time From Queue'', chartFromDate = [], chartToDate = [],
      groupByColumn = ''PLATFORM_NAME'', filterColumn = [], filterValue = [],
      yAxisTitle = ''Minutes (lower is better)'', targetGoal = 15, stretchGoal = 10,
      tablename = ''qa_builds_and_runs_from_bamboo''\<rparr>"

text \<open>Some of the names every array inherits.\<close>

definition arrayBuiltins :: "string \<Rightarrow> bool" where
  "arrayBuiltins k = (k \<in> set [''constructor'', ''toString'', ''push'', ''pop'', ''concat'', ''join''])"

definition row :: "string \<Rightarrow> int option \<Rightarrow> string option \<Rightarrow> (string, int) RawRow" where
  "row d v g = \<lparr>DATE = d, AVG_BUILD_TIME = v, groupField = g\<rparr>"

definition overallRows :: "(string, int) RawRow list" where
  "overallRows = [row ''2018-01-01'' (Some 5) None, row ''2018-01-02'' (Some 7) None]"

text \<open>Groups \<open>B\<close> and \<open>A\<close> (in that order), an empty group, a null average.\<close>

definition groupedRows :: "(string, int) RawRow list" where
  "groupedRows =
     [row ''2018-01-01'' None (Some ''B''), row ''2018-01-02'' (Some 4) (Some ''B''),
      row ''2018-01-01'' (Some 9) (Some ''A''), row ''2018-01-02'' (Some 8) (Some ''A''),
      row ''2018-01-03'' (Some 6) (Some []), row ''2018-01-03'' (Some 3) (Some ''B'')]"

text \<open>Groups named by numbers, \<open>2\<close> before \<open>1\<close>.\<close>

definition numberedRows :: "(string, int) RawRow list" where
  "numberedRows =
     [row ''2018-01-01'' (Some 4) (Some ''2''), row ''2018-01-02'' (Some 4) (Some ''2''),
      row ''2018-01-03'' (Some 4) (Some ''2''), row ''2018-01-01'' (Some 9) (Some ''1''),
      row ''2018-01-02'' (Some 9) (Some ''1''), row ''2018-01-03'' (Some 9) (Some ''1'')]"

text \<open>A group whose name is \<open>length\<close>.\<close>

definition lengthRows :: "(string, int) RawRow list" where
  "lengthRows =
     [row ''2018-01-01'' (Some 4) (Some ''length''), row ''2018-01-02'' (Some 4) (Some ''length''),
      row ''2018-01-03'' (Some 4) (Some ''length''), row ''2018-01-04'' (Some 9) (Some ''length''),
      row ''2018-01-05'' (Some 9) (Some ''length''), row ''2018-01-06'' (Some 9) (Some ''length'')]"

text \<open>A sequence of one row, of a group of its own.\<close>

definition shortRows :: "(string, int) RawRow list" where
  "shortRows = [row ''2018-01-09'' (Some 1) (Some ''C'')]"

text \<open>
  A query builder with two fixed query texts, and a storage that answers them with the
  overall and the grouped rows above.
\<close>

definition exampleQueries :: "Mapper \<Rightarrow> string \<Rightarrow> string \<Rightarrow> int \<Rightarrow> string list" where
  "exampleQueries m from0 to0 dateRange = [''overall'', ''grouped'']"

definition exampleStorage :: "string \<Rightarrow> js_error + (string, int) RawRow list" where
  "exampleStorage sql =
     (if sql = ''overall'' then Inr overallRows
      else if sql = ''grouped'' then Inr groupedRows
      else Inl (StorageError ''unknown query''))"

text \<open>The single row of a date query.\<close>

definition dateRow :: "js_value \<Rightarrow> (js_value, int) RawRow" where
  "dateRow d = \<lparr>DATE = d, AVG_BUILD_TIME = None, groupField = None\<rparr>"

text \<open>
  \<^verbatim>\<open>new Date(value)\<close> on a \<^verbatim>\<open>Date\<close> object or a number of milliseconds; the other
  kinds of value do not occur in the examples.
\<close>

definition newDateOf :: "js_value \<Rightarrow> Date" where
  "newDateOf v = (case v of JsDate d \<Rightarrow> d | JsNumber n \<Rightarrow> n | _ \<Rightarrow> 0)"

definition noOutput :: Sinks where
  "noOutput = \<lparr>console = [], logged = []\<rparr>"

text \<open>Two dates, 2018-01-01 and 2018-01-03 at midnight UTC.\<close>

definition exampleFrom :: Date where
  "exampleFrom = 17532 * 86400000"

definition exampleTo :: Date where
  "exampleTo = 17534 * 86400000"

text \<open>The names of the series of a returned payload, \<open>None\<close> when there is no payload.\<close>

definition seriesNames ::
  "'a \<times> (js_error + ('d, 'v) IKpiState option) \<Rightarrow> string list option" where
  "seriesNames res =
     (case snd res of Inr (Some p) \<Rightarrow> Some (map name (data p)) | Inr None \<Rightarrow> None | Inl e \<Rightarrow> None)"

section \<open>Properties of the assembly loop\<close>

lemma groupKey_setOverall: "groupKey (setOverall r) = groupName r"
  by (simp add: groupKey_def setOverall_def groupName_def fieldFalsy_def split: option.splits)

lemma firstSightings_snoc:
  "firstSightings (xs @ [a]) = (if a \<in> set xs then firstSightings xs else firstSightings xs @ [a])"
  by (simp add: firstSightings_def)

lemma set_firstSightings: "set (firstSightings xs) = set xs"
  by (simp add: firstSightings_def)

lemma distinct_firstSightings: "distinct (firstSightings xs)"
  by (simp add: firstSightings_def)

lemma map_of_linesOf:
  "map_of (linesOf ps) g = (if g \<in> groupName ` set ps then Some (lineFor ps g) else None)"
  by (simp add: linesOf_def map_of_map_restrict restrict_map_def set_firstSightings)

lemma fst_linesOf: "map fst (linesOf ps) = firstSightings (map groupName ps)"
  by (simp add: linesOf_def comp_def)

lemma lineFor_snoc_same:
  "lineFor (ps @ [r]) (groupName r) =
     (lineFor ps (groupName r))\<lparr>xValues := xValues (lineFor ps (groupName r)) @ [DATE r],
        yValues := yValues (lineFor ps (groupName r)) @ [AVG_BUILD_TIME r]\<rparr>"
  by (simp add: lineFor_def)

lemma lineFor_snoc_other: "g \<noteq> groupName r \<Longrightarrow> lineFor (ps @ [r]) g = lineFor ps g"
  by (auto simp add: lineFor_def)

lemma DATE_setOverall: "DATE (setOverall r) = DATE r"
  and AVG_setOverall: "AVG_BUILD_TIME (setOverall r) = AVG_BUILD_TIME r"
  by (simp_all add: setOverall_def)

lemma fst_addResult: "fst (addResult inherited r tls) = setOverall r"
  by (simp add: addResult_def Let_def)

lemma addResult_seen:
  assumes "groupName r \<in> groupName ` set ps"
  shows "snd (addResult inherited r (linesOf ps)) = Inr (linesOf (ps @ [r]))"
proof -
  let ?g = "groupName r"
  have g: "getProp inherited (linesOf ps) ?g = Line (lineFor ps ?g)"
    using assms by (simp add: getProp_def map_of_linesOf)
  have e: "ensureTraceLine inherited ?g (linesOf ps) = Inr (linesOf ps)"
    by (simp add: ensureTraceLine_def g)
  have fs: "firstSightings (map groupName (ps @ [r])) = firstSightings (map groupName ps)"
    using assms by (simp add: firstSightings_snoc)
  have "pushPoint inherited ?g (DATE r) (AVG_BUILD_TIME r) (linesOf ps) = Inr (linesOf (ps @ [r]))"
    unfolding pushPoint_def g
    by (simp add: linesOf_def fs lineFor_snoc_same lineFor_snoc_other del: map_append)
  then show ?thesis
    by (simp add: addResult_def Let_def groupKey_setOverall e DATE_setOverall AVG_setOverall)
qed

lemma addResult_new:
  assumes "groupName r \<notin> groupName ` set ps" and "\<not> reserved inherited (groupName r)"
  shows "snd (addResult inherited r (linesOf ps)) = Inr (linesOf (ps @ [r]))"
proof -
  define g where "g = groupName r"
  define new :: "('a, 'b) TraceLine"
    where "new = GetTraceLineData g [] [] (if g = ''Overall'' then 3 else 1)"
  define upd :: "string \<times> ('a, 'b) TraceLine \<Rightarrow> string \<times> ('a, 'b) TraceLine"
    where "upd = (\<lambda>(k', t'). if k' = g
                 then (k', t'\<lparr>xValues := xValues t' @ [DATE r], yValues := yValues t' @ [AVG_BUILD_TIME r]\<rparr>)
                 else (k', t'))"
  have fresh: "g \<notin> groupName ` set ps"
    using assms(1) by (simp add: g_def)
  have nl: "g \<noteq> ''length''" and ni: "\<not> inherited g"
    using assms(2) by (auto simp add: reserved_def g_def split: if_splits)
  have p1: "getProp inherited (linesOf ps) g = Undefined"
    using fresh nl ni by (simp add: getProp_def map_of_linesOf)
  have nk: "g \<notin> set (map fst (linesOf ps))"
    using fresh by (simp add: fst_linesOf set_firstSightings)
  have e: "ensureTraceLine inherited g (linesOf ps) = Inr (linesOf ps @ [(g, new)])"
    using nl nk by (simp add: ensureTraceLine_def p1 setProp_def new_def)
  have p2: "getProp inherited (linesOf ps @ [(g, new)]) g = Line new"
    using fresh by (simp add: getProp_def map_of_linesOf map_add_def)
  have fs: "firstSightings (map groupName (ps @ [r])) = firstSightings (map groupName ps) @ [g]"
    using fresh by (simp add: firstSightings_snoc g_def)
  have empty: "filter (\<lambda>p. groupName p = g) ps = []"
    using fresh by (metis (mono_tags, lifting) filter_False imageI)
  have newline: "upd (g, new) = (g, lineFor (ps @ [r]) g)"
    by (simp add: upd_def new_def GetTraceLineData_def lineFor_def empty [unfolded g_def] g_def)
  have others: "\<forall>k \<in> set (firstSightings (map groupName ps)). k \<noteq> g"
    using fresh by (metis set_firstSightings set_map)
  have old: "map upd (linesOf ps) = map (\<lambda>k. (k, lineFor (ps @ [r]) k)) (firstSightings (map groupName ps))"
    using others unfolding linesOf_def upd_def by (simp add: lineFor_snoc_other g_def)
  have "map upd (linesOf ps @ [(g, new)]) = linesOf (ps @ [r])"
    unfolding linesOf_def [of "ps @ [r]"] fs by (simp add: old newline)
  then have "pushPoint inherited g (DATE r) (AVG_BUILD_TIME r) (linesOf ps @ [(g, new)]) = Inr (linesOf (ps @ [r]))"
    unfolding pushPoint_def p2 upd_def by simp
  then show ?thesis
    using e by (simp add: addResult_def Let_def groupKey_setOverall DATE_setOverall AVG_setOverall g_def)
qed

lemma addResult_reserved:
  assumes "groupName r \<notin> groupName ` set ps" and "reserved inherited (groupName r)"
  shows "isl (snd (addResult inherited r (linesOf ps)))"
proof -
  let ?g = "groupName r"
  have m: "map_of (linesOf ps) ?g = None"
    using assms(1) by (simp add: map_of_linesOf)
  show ?thesis
  proof (cases "?g = ''length''")
    case True
    then show ?thesis
      using m by (simp add: addResult_def Let_def groupKey_setOverall ensureTraceLine_def
          getProp_def setProp_def pushPoint_def)
  next
    case False
    then have "inherited ?g" using assms(2) by (simp add: reserved_def)
    then show ?thesis
      using m False by (simp add: addResult_def Let_def groupKey_setOverall ensureTraceLine_def
          getProp_def setProp_def pushPoint_def)
  qed
qed

lemma linesOf_Nil: "linesOf [] = []"
  by (simp add: linesOf_def firstSightings_def)

lemma addResult_ok:
  assumes "\<not> reserved inherited (groupName r)"
  shows "addResult inherited r (linesOf ps) = (setOverall r, Inr (linesOf (ps @ [r])))"
proof (cases "groupName r \<in> groupName ` set ps")
  case True
  then show ?thesis
    using addResult_seen [of r ps inherited] fst_addResult [of inherited r "linesOf ps"]
    by (simp add: prod_eq_iff)
next
  case False
  then show ?thesis
    using addResult_new [of r ps inherited] assms fst_addResult [of inherited r "linesOf ps"]
    by (simp add: prod_eq_iff)
qed

lemma addResult_bad:
  assumes "reserved inherited (groupName r)"
    and "\<forall>p \<in> set ps. \<not> reserved inherited (groupName p)"
  shows "isl (snd (addResult inherited r (linesOf ps)))"
proof -
  have "groupName r \<notin> groupName ` set ps"
    using assms by auto
  then show ?thesis
    using assms(1) by (rule addResult_reserved)
qed

lemma addResults_ok:
  "\<forall>r \<in> set rs. \<not> reserved inherited (groupName r) \<Longrightarrow>
   addResults inherited rs (linesOf ps) = (map setOverall rs, Inr (linesOf (ps @ rs)))"
proof (induction rs arbitrary: ps)
  case Nil
  then show ?case by simp
next
  case (Cons r rs)
  have "addResult inherited r (linesOf ps) = (setOverall r, Inr (linesOf (ps @ [r])))"
    using Cons.prems by (simp add: addResult_ok)
  moreover have "addResults inherited rs (linesOf (ps @ [r]))
      = (map setOverall rs, Inr (linesOf ((ps @ [r]) @ rs)))"
    using Cons.prems by (intro Cons.IH) simp
  ultimately show ?case by simp
qed

lemma addResults_bad:
  "\<exists>r \<in> set rs. reserved inherited (groupName r) \<Longrightarrow>
   \<forall>p \<in> set ps. \<not> reserved inherited (groupName p) \<Longrightarrow>
   isl (snd (addResults inherited rs (linesOf ps)))"
proof (induction rs arbitrary: ps)
  case Nil
  then show ?case by simp
next
  case (Cons r rs)
  show ?case
  proof (cases "reserved inherited (groupName r)")
    case True
    then have "isl (snd (addResult inherited r (linesOf ps)))"
      using Cons.prems(2) by (rule addResult_bad)
    then show ?thesis
      by (cases "addResult inherited r (linesOf ps)") (auto simp add: isl_def)
  next
    case False
    then have step: "addResult inherited r (linesOf ps) = (setOverall r, Inr (linesOf (ps @ [r])))"
      by (simp add: addResult_ok)
    have "isl (snd (addResults inherited rs (linesOf (ps @ [r]))))"
      using Cons.prems False by (intro Cons.IH) auto
    then show ?thesis
      using step by (auto split: prod.splits)
  qed
qed

lemma fst_addResults:
  "list_all2 (\<lambda>r r'. r' = r \<or> r' = setOverall r) rs (fst (addResults inherited rs tls))"
proof (induction rs arbitrary: tls)
  case Nil
  then show ?case by simp
next
  case (Cons r rs)
  obtain r' res where step: "addResult inherited r tls = (r', res)"
    by (cases "addResult inherited r tls")
  then have r': "r' = setOverall r"
    using fst_addResult [of inherited r tls] by simp
  show ?case
  proof (cases res)
    case (Inl e)
    then show ?thesis
      using step r' by (simp add: list_all2_refl)
  next
    case (Inr tls')
    then show ?thesis
      using step r' Cons.IH [of tls'] by (auto split: prod.splits)
  qed
qed

lemma processedRows_Cons:
  "processedRows (s # ss) = (if length s < 2 then processedRows ss else s @ processedRows ss)"
  by (simp add: processedRows_def)

lemma addSequences_ok:
  "\<forall>r \<in> set (processedRows ss). \<not> reserved inherited (groupName r) \<Longrightarrow>
   addSequences inherited ss (linesOf ps) = (rowsAfter ss, Inr (linesOf (ps @ processedRows ss)))"
proof (induction ss arbitrary: ps)
  case Nil
  then show ?case by (simp add: processedRows_def rowsAfter_def)
next
  case (Cons s ss)
  show ?case
  proof (cases "length s < 2")
    case True
    then show ?thesis
      using Cons.prems Cons.IH [of ps] by (simp add: processedRows_Cons rowsAfter_def)
  next
    case False
    have "addResults inherited s (linesOf ps) = (map setOverall s, Inr (linesOf (ps @ s)))"
      using Cons.prems False by (intro addResults_ok) (simp add: processedRows_Cons)
    moreover have "addSequences inherited ss (linesOf (ps @ s))
        = (rowsAfter ss, Inr (linesOf ((ps @ s) @ processedRows ss)))"
      using Cons.prems False by (intro Cons.IH) (simp add: processedRows_Cons)
    ultimately show ?thesis
      using False by (simp add: processedRows_Cons rowsAfter_def)
  qed
qed

lemma addSequences_bad:
  "\<exists>r \<in> set (processedRows ss). reserved inherited (groupName r) \<Longrightarrow>
   \<forall>p \<in> set ps. \<not> reserved inherited (groupName p) \<Longrightarrow>
   isl (snd (addSequences inherited ss (linesOf ps)))"
proof (induction ss arbitrary: ps)
  case Nil
  then show ?case by (simp add: processedRows_def)
next
  case (Cons s ss)
  show ?case
  proof (cases "length s < 2")
    case True
    then have "isl (snd (addSequences inherited ss (linesOf ps)))"
      using Cons.prems by (intro Cons.IH) (simp_all add: processedRows_Cons)
    then show ?thesis
      using True by (auto split: prod.splits)
  next
    case False
    show ?thesis
    proof (cases "\<exists>r \<in> set s. reserved inherited (groupName r)")
      case True
      then have "isl (snd (addResults inherited s (linesOf ps)))"
        using Cons.prems(2) by (rule addResults_bad)
      then show ?thesis
        using False by (cases "addResults inherited s (linesOf ps)") (auto simp add: isl_def)
    next
      case clean: False
      then have step: "addResults inherited s (linesOf ps) = (map setOverall s, Inr (linesOf (ps @ s)))"
        by (intro addResults_ok) simp
      have "isl (snd (addSequences inherited ss (linesOf (ps @ s))))"
        using Cons.prems False clean by (intro Cons.IH) (auto simp add: processedRows_Cons)
      then show ?thesis
        using step False by (auto split: prod.splits)
    qed
  qed
qed

lemma set_forInKeys: "set (forInKeys ks) = set ks"
  by (auto simp add: forInKeys_def)

lemma distinct_forInKeys: "distinct ks \<Longrightarrow> distinct (forInKeys ks)"
  by (auto simp add: forInKeys_def distinct_sort)

lemma forInKeys_no_index: "\<forall>k \<in> set ks. \<not> isArrayIndex k \<Longrightarrow> forInKeys ks = ks"
proof -
  assume a: "\<forall>k \<in> set ks. \<not> isArrayIndex k"
  then have "filter isArrayIndex ks = []"
    by (simp add: filter_empty_conv)
  moreover have "filter (\<lambda>k. \<not> isArrayIndex k) ks = ks"
    using a by (simp add: filter_id_conv)
  ultimately show ?thesis
    by (simp add: forInKeys_def)
qed

lemma concat_map_singletons:
  "\<forall>k \<in> set ks. f k = [g k] \<Longrightarrow> concat (map f ks) = map g ks"
  by (induction ks) simp_all

lemma collectData_linesOf:
  "collectData (linesOf ps) = map (lineFor ps) (forInKeys (firstSightings (map groupName ps)))"
proof -
  let ?ks = "forInKeys (firstSightings (map groupName ps))"
  have "\<forall>k \<in> set ?ks.
      (case map_of (linesOf ps) k of Some t \<Rightarrow> [t] | None \<Rightarrow> []) = [lineFor ps k]"
    by (simp add: set_forInKeys set_firstSightings map_of_linesOf)
  then have "concat (map (\<lambda>k. case map_of (linesOf ps) k of Some t \<Rightarrow> [t] | None \<Rightarrow> []) ?ks)
      = map (lineFor ps) ?ks"
    by (rule concat_map_singletons)
  then show ?thesis
    by (simp add: collectData_def fst_linesOf)
qed

lemma mapTo_null:
  "length a < 2 \<or> length b < 6 \<Longrightarrow>
   mapToKpiStateOrNull m inherited (a # b # rest) = (a # b # rest, Inr None)"
  by (auto simp add: mapToKpiStateOrNull_def)

lemma mapTo_assembles:
  assumes "2 \<le> length a" and "6 \<le> length b"
  shows "mapToKpiStateOrNull m inherited (a # b # rest) =
     (case addSequences inherited (a # b # rest) [] of
        (rows, Inl e) \<Rightarrow> (rows, Inl e)
      | (rows, Inr tls) \<Rightarrow> (rows, Inr (Some (kpiState m (collectData tls)))))"
  using assms by (simp add: mapToKpiStateOrNull_def del: addSequences.simps)

lemma mapTo_payload:
  assumes "2 \<le> length a" and "6 \<le> length b"
    and "\<forall>r \<in> set (processedRows (a # b # rest)). \<not> reserved inherited (groupName r)"
  shows "mapToKpiStateOrNull m inherited (a # b # rest) =
     (rowsAfter (a # b # rest),
      Inr (Some (kpiState m (map (lineFor (processedRows (a # b # rest)))
         (forInKeys (firstSightings (map groupName (processedRows (a # b # rest)))))))))"
proof -
  have "addSequences inherited (a # b # rest) (linesOf []) =
      (rowsAfter (a # b # rest), Inr (linesOf ([] @ processedRows (a # b # rest))))"
    using assms(3) by (rule addSequences_ok)
  then show ?thesis
    using assms(1,2)
    by (simp add: mapTo_assembles linesOf_Nil collectData_linesOf del: addSequences.simps)
qed

lemma mapTo_throws:
  assumes "2 \<le> length a" and "6 \<le> length b"
    and "\<exists>r \<in> set (processedRows (a # b # rest)). reserved inherited (groupName r)"
  shows "isl (snd (mapToKpiStateOrNull m inherited (a # b # rest)))"
proof -
  have "isl (snd (addSequences inherited (a # b # rest) (linesOf [])))"
    using assms(3) by (rule addSequences_bad) simp
  then show ?thesis
    using assms(1,2)
    by (cases "addSequences inherited (a # b # rest) []")
       (auto simp add: mapTo_assembles linesOf_Nil isl_def simp del: addSequences.simps)
qed

lemma mapTo_payloadD:
  assumes "mapToKpiStateOrNull m inherited jsonArrays = (rows, Inr (Some p))"
  shows "\<exists>a b rest. jsonArrays = a # b # rest \<and> 2 \<le> length a \<and> 6 \<le> length b"
    and "\<forall>r \<in> set (processedRows jsonArrays). \<not> reserved inherited (groupName r)"
    and "rows = rowsAfter jsonArrays"
    and "p = kpiState m (map (lineFor (processedRows jsonArrays))
         (forInKeys (firstSightings (map groupName (processedRows jsonArrays)))))"
proof -
  obtain a b rest where shape: "jsonArrays = a # b # rest"
    using assms by (auto simp add: mapToKpiStateOrNull_def split: list.splits if_splits)
  have gate: "2 \<le> length a \<and> 6 \<le> length b"
  proof (rule ccontr)
    assume "\<not> (2 \<le> length a \<and> 6 \<le> length b)"
    then have "length a < 2 \<or> length b < 6" by auto
    then show False
      using assms mapTo_null [of a b m inherited rest] by (simp add: shape)
  qed
  show "\<exists>a b rest. jsonArrays = a # b # rest \<and> 2 \<le> length a \<and> 6 \<le> length b"
    using shape gate by blast
  show clean: "\<forall>r \<in> set (processedRows jsonArrays). \<not> reserved inherited (groupName r)"
  proof (rule ccontr)
    assume "\<not> (\<forall>r \<in> set (processedRows jsonArrays). \<not> reserved inherited (groupName r))"
    then have "\<exists>r \<in> set (processedRows (a # b # rest)). reserved inherited (groupName r)"
      by (simp add: shape)
    then have "isl (snd (mapToKpiStateOrNull m inherited (a # b # rest)))"
      using gate by (intro mapTo_throws) simp_all
    then show False
      using assms by (simp add: shape)
  qed
  have full: "mapToKpiStateOrNull m inherited (a # b # rest) =
     (rowsAfter (a # b # rest),
      Inr (Some (kpiState m (map (lineFor (processedRows (a # b # rest)))
         (forInKeys (firstSightings (map groupName (processedRows (a # b # rest)))))))))"
    using gate clean by (intro mapTo_payload) (simp_all add: shape)
  show "rows = rowsAfter jsonArrays"
    using assms full by (simp add: shape)
  show "p = kpiState m (map (lineFor (processedRows jsonArrays))
         (forInKeys (firstSightings (map groupName (processedRows jsonArrays)))))"
    using assms full by (simp add: shape)
qed

lemma example_payload:
  "mapToKpiStateOrNull exampleMapper arrayBuiltins [overallRows, groupedRows] =
     (rowsAfter [overallRows, groupedRows],
      Inr (Some (kpiState exampleMapper (map (lineFor (processedRows [overallRows, groupedRows]))
         (forInKeys (firstSightings (map groupName (processedRows [overallRows, groupedRows]))))))))"
  by (rule mapTo_payload)
     (simp_all add: overallRows_def groupedRows_def processedRows_def row_def groupName_def
        reserved_def arrayBuiltins_def)

lemma example_names:
  "firstSightings (map groupName (processedRows [overallRows, groupedRows])) = [''Overall'', ''B'', ''A'']"
  by (simp add: overallRows_def groupedRows_def processedRows_def row_def groupName_def
        firstSightings_def)

lemma not_index_Overall: "\<not> isArrayIndex ''Overall''"
  and not_index_A: "\<not> isArrayIndex ''A''"
  and not_index_B: "\<not> isArrayIndex ''B''"
  by (simp_all add: isArrayIndex_def isDigit_def digitValue_def)

lemma name_lineFor: "name (lineFor ps g) = g"
  by (simp add: lineFor_def)

lemma names_of_lines: "map name (map (lineFor ps) ks) = ks"
  by (simp add: comp_def name_lineFor)

section \<open>The claims about \<^verbatim>\<open>mapToKpiStateOrNull\<close>\<close>



lemma numbered_payload:
  "mapToKpiStateOrNull exampleMapper arrayBuiltins [overallRows, numberedRows] =
     (rowsAfter [overallRows, numberedRows],
      Inr (Some (kpiState exampleMapper (map (lineFor (processedRows [overallRows, numberedRows]))
         (forInKeys (firstSightings (map groupName (processedRows [overallRows, numberedRows]))))))))"
  by (rule mapTo_payload)
     (simp_all add: overallRows_def numberedRows_def processedRows_def row_def groupName_def
        reserved_def arrayBuiltins_def)

lemma numbered_names:
  "firstSightings (map groupName (processedRows [overallRows, numberedRows])) = [''Overall'', ''2'', ''1'']"
  by (simp add: overallRows_def numberedRows_def processedRows_def row_def groupName_def
        firstSightings_def)

lemma index_1: "isArrayIndex ''1''"
  and index_2: "isArrayIndex ''2''"
  by (simp_all add: isArrayIndex_def isDigit_def digitValue_def decimalValue_def)

lemma numbered_order:
  "forInKeys [''Overall'', ''2'', ''1''] = [''1'', ''2'', ''Overall'']"
  by (simp add: forInKeys_def index_1 index_2 not_index_Overall decimalValue_def digitValue_def)

text \<open>
  C3 as stated fails where a group name is an array index. With the groups sighted in
  the order \<open>Overall\<close>, \<open>2\<close>, \<open>1\<close> the payload lists \<open>1\<close>, \<open>2\<close>, \<open>Overall\<close>.
\<close>

theorem C3_numbered_groups_counterexample:
  "seriesNames (mapToKpiStateOrNull exampleMapper arrayBuiltins [overallRows, numberedRows])
      = Some [''1'', ''2'', ''Overall'']
   \<and> firstSightings (map groupName (overallRows @ numberedRows)) = [''Overall'', ''2'', ''1'']"
proof -
  have "firstSightings (map groupName (overallRows @ numberedRows)) = [''Overall'', ''2'', ''1'']"
    using numbered_names by (simp add: processedRows_def overallRows_def numberedRows_def)
  then show ?thesis
    by (simp add: seriesNames_def numbered_payload numbered_names numbered_order kpiState_def
          name_lineFor)
qed

text \<open>
  C3, amended. Whenever a payload is returned, its series are ordered as
  \<^verbatim>\<open>for (... in traceLines)\<close> visits the names: first the group names that are array
  indices (canonical decimal numbers below \<open>2^32 - 1\<close>), in ascending numeric order,
  then all other group names in the order of their first sighting across the overall
  sequence followed by the grouped sequence. In particular, when no resolved group name
  is an array index, the order of the series is the first-sighting order.
\<close>

theorem C3_series_order:
  assumes "mapToKpiStateOrNull m inherited jsonArrays = (rows, Inr (Some p))"
  shows "map name (data p) =
      sort_key decimalValue
        (filter isArrayIndex (firstSightings (map groupName (processedRows jsonArrays))))
      @ filter (\<lambda>k. \<not> isArrayIndex k) (firstSightings (map groupName (processedRows jsonArrays)))
    \<and> sorted (map decimalValue
        (sort_key decimalValue
          (filter isArrayIndex (firstSightings (map groupName (processedRows jsonArrays))))))
    \<and> ((\<forall>r \<in> set (processedRows jsonArrays). \<not> isArrayIndex (groupName r)) \<longrightarrow>
      map name (data p) = firstSightings (map groupName (processedRows jsonArrays)))"
proof -
  let ?fs = "firstSightings (map groupName (processedRows jsonArrays))"
  have names: "map name (data p) = forInKeys ?fs"
    using mapTo_payloadD(4) [OF assms] by (simp add: kpiState_def names_of_lines del: map_map)
  then have order: "map name (data p) =
      sort_key decimalValue (filter isArrayIndex ?fs) @ filter (\<lambda>k. \<not> isArrayIndex k) ?fs"
    by (simp add: forInKeys_def)
  have asc: "sorted (map decimalValue (sort_key decimalValue (filter isArrayIndex ?fs)))"
    by simp
  have plain: "map name (data p) = ?fs"
    if "\<forall>r \<in> set (processedRows jsonArrays). \<not> isArrayIndex (groupName r)"
  proof -
    have "\<forall>k \<in> set ?fs. \<not> isArrayIndex k"
      using that by (simp add: set_firstSightings)
    then show ?thesis
      using names by (simp add: forInKeys_no_index)
  qed
  show ?thesis
    using order asc plain by blast
qed

theorem C3_series_order_witness:
  "\<exists>rows p. mapToKpiStateOrNull exampleMapper arrayBuiltins [overallRows, groupedRows]
        = (rows, Inr (Some p))
     \<and> firstSightings (map groupName (processedRows [overallRows, groupedRows]))
        = [''Overall'', ''B'', ''A'']
     \<and> map name (data p) = [''Overall'', ''B'', ''A'']"
proof -
  let ?p = "kpiState exampleMapper (map (lineFor (processedRows [overallRows, groupedRows]))
         (forInKeys (firstSightings (map groupName (processedRows [overallRows, groupedRows])))))"
  have "\<forall>k \<in> set (firstSightings (map groupName (processedRows [overallRows, groupedRows]))).
      \<not> isArrayIndex k"
    by (simp add: example_names not_index_Overall not_index_A not_index_B)
  then have "\<forall>r \<in> set (processedRows [overallRows, groupedRows]). \<not> isArrayIndex (groupName r)"
    by (simp add: set_firstSightings)
  then have "map name (data ?p) = firstSightings (map groupName (processedRows [overallRows, groupedRows]))"
    using C3_series_order [OF example_payload] by blast
  then have n: "map name (data ?p) = [''Overall'', ''B'', ''A'']"
    by (simp only: example_names)
  show ?thesis
    by (intro exI conjI) (rule example_payload, rule example_names, rule n)
qed

text \<open>
  C8. Whenever a payload is returned, each of its trace lines holds exactly the dates
  and the averages of the processed rows of its group, in row order: a null average
  stays a null point at its place (neither dropped nor replaced), the x-values and the
  y-values of every line have the same length, and every processed row has its line.
\<close>

theorem C8_null_points_kept:
  assumes "mapToKpiStateOrNull m inherited jsonArrays = (rows, Inr (Some p))"
  shows "(\<forall>t \<in> set (data p).
        length (xValues t) = length (yValues t)
      \<and> xValues t = map DATE (filter (\<lambda>r. groupName r = name t) (processedRows jsonArrays))
      \<and> yValues t = map AVG_BUILD_TIME
           (filter (\<lambda>r. groupName r = name t) (processedRows jsonArrays)))
    \<and> (\<forall>r \<in> set (processedRows jsonArrays). \<exists>t \<in> set (data p). name t = groupName r)"
proof -
  let ?ps = "processedRows jsonArrays"
  let ?ks = "forInKeys (firstSightings (map groupName ?ps))"
  have p: "data p = map (lineFor ?ps) ?ks"
    using mapTo_payloadD(4) [OF assms] by (simp add: kpiState_def)
  have lines: "\<forall>t \<in> set (data p).
        length (xValues t) = length (yValues t)
      \<and> xValues t = map DATE (filter (\<lambda>r. groupName r = name t) ?ps)
      \<and> yValues t = map AVG_BUILD_TIME (filter (\<lambda>r. groupName r = name t) ?ps)"
    by (auto simp add: p lineFor_def)
  have "set (map name (data p)) = groupName ` set ?ps"
    by (simp add: p names_of_lines set_forInKeys set_firstSightings del: map_map)
  then have "\<forall>r \<in> set ?ps. groupName r \<in> name ` set (data p)"
    by auto
  then have "\<forall>r \<in> set ?ps. \<exists>t \<in> set (data p). name t = groupName r"
    by (metis (mono_tags, lifting) imageE)
  then show ?thesis
    using lines by blast
qed

theorem C8_null_points_kept_witness:
  "\<exists>rows p t. mapToKpiStateOrNull exampleMapper arrayBuiltins [overallRows, groupedRows]
        = (rows, Inr (Some p))
     \<and> t \<in> set (data p) \<and> name t = ''B''
     \<and> yValues t = [None, Some 4, Some 3]
     \<and> xValues t = [''2018-01-01'', ''2018-01-02'', ''2018-01-03'']
     \<and> length (xValues t) = length (yValues t)"
proof -
  let ?ps = "processedRows [overallRows, groupedRows]"
  let ?p = "kpiState exampleMapper (map (lineFor ?ps) (forInKeys (firstSightings (map groupName ?ps))))"
  let ?t = "lineFor ?ps ''B''"
  have ks: "forInKeys (firstSightings (map groupName ?ps)) = [''Overall'', ''B'', ''A'']"
    by (simp add: example_names forInKeys_no_index not_index_Overall not_index_A not_index_B)
  have t: "?t \<in> set (data ?p)"
    by (simp add: ks kpiState_def)
  have n: "name ?t = ''B''"
    by (simp add: name_lineFor)
  have rows: "filter (\<lambda>r. groupName r = ''B'') ?ps =
      [row ''2018-01-01'' None (Some ''B''), row ''2018-01-02'' (Some 4) (Some ''B''),
       row ''2018-01-03'' (Some 3) (Some ''B'')]"
    by (simp add: processedRows_def overallRows_def groupedRows_def row_def groupName_def)
  from C8_null_points_kept [OF example_payload] t
  have c: "length (xValues ?t) = length (yValues ?t)
      \<and> xValues ?t = map DATE (filter (\<lambda>r. groupName r = name ?t) ?ps)
      \<and> yValues ?t = map AVG_BUILD_TIME (filter (\<lambda>r. groupName r = name ?t) ?ps)"
    by blast
  then have y: "yValues ?t = [None, Some 4, Some 3]"
    by (simp add: n rows row_def)
  from c have x: "xValues ?t = [''2018-01-01'', ''2018-01-02'', ''2018-01-03'']"
    by (simp add: n rows row_def)
  from c have l: "length (xValues ?t) = length (yValues ?t)"
    by blast
  show ?thesis
    by (intro exI conjI) (rule example_payload, rule t, rule n, rule y, rule x, rule l)
qed

text \<open>
  C10. Whenever a payload is returned and the rows of the overall sequence (the first
  one) have no group field (absent or empty), the payload's series list is not empty and
  holds a line named \<open>Overall\<close> of width 3 with at least 2 points.
\<close>

theorem C10_overall_line_present:
  assumes "mapToKpiStateOrNull m inherited (overall # rest) = (rows, Inr (Some p))"
    and "\<forall>r \<in> set overall. fieldFalsy (groupField r)"
  shows "data p \<noteq> []
    \<and> (\<exists>t \<in> set (data p). name t = ''Overall'' \<and> lineWidth t = 3
          \<and> 2 \<le> length (xValues t) \<and> 2 \<le> length (yValues t))"
proof -
  let ?ps = "processedRows (overall # rest)"
  let ?ks = "forInKeys (firstSightings (map groupName ?ps))"
  let ?t = "lineFor ?ps ''Overall''"
  have long: "2 \<le> length overall"
    using mapTo_payloadD(1) [OF assms(1)] by auto
  then have ps: "?ps = overall @ processedRows rest"
    by (simp add: processedRows_Cons)
  have all: "\<forall>r \<in> set overall. groupName r = ''Overall''"
    using assms(2) by (auto simp add: groupName_def fieldFalsy_def split: option.splits)
  obtain r where r: "r \<in> set overall"
    using long by (cases overall) auto
  then have "''Overall'' \<in> groupName ` set ?ps"
    using all ps by force
  then have key: "''Overall'' \<in> set ?ks"
    by (simp add: set_forInKeys set_firstSightings)
  have p: "data p = map (lineFor ?ps) ?ks"
    using mapTo_payloadD(4) [OF assms(1)] by (simp add: kpiState_def)
  have t: "?t \<in> set (data p)"
    using key by (simp add: p)
  have "filter (\<lambda>r. groupName r = ''Overall'') overall = overall"
    using all by (simp add: filter_id_conv)
  then have "length (filter (\<lambda>r. groupName r = ''Overall'') ?ps) \<ge> length overall"
    by (simp add: ps)
  then have pts: "2 \<le> length (xValues ?t) \<and> 2 \<le> length (yValues ?t)"
    using long by (simp add: lineFor_def)
  have "name ?t = ''Overall'' \<and> lineWidth ?t = 3"
    by (simp add: lineFor_def)
  then have "\<exists>t \<in> set (data p). name t = ''Overall'' \<and> lineWidth t = 3
          \<and> 2 \<le> length (xValues t) \<and> 2 \<le> length (yValues t)"
    using t pts by blast
  moreover have "data p \<noteq> []"
    using t by auto
  ultimately show ?thesis
    by simp
qed

theorem C10_overall_line_present_witness:
  "(\<exists>rows p. mapToKpiStateOrNull exampleMapper arrayBuiltins (overallRows # [groupedRows])
        = (rows, Inr (Some p))
      \<and> data p \<noteq> []
      \<and> (\<exists>t. t \<in> set (data p) \<and> name t = ''Overall'' \<and> lineWidth t = 3
            \<and> 2 \<le> length (xValues t) \<and> 2 \<le> length (yValues t)))
   \<and> list_all (\<lambda>r. fieldFalsy (groupField r)) overallRows"
proof -
  have h: "\<forall>r \<in> set overallRows. fieldFalsy (groupField r)"
    by (simp add: overallRows_def row_def fieldFalsy_def)
  then have l: "list_all (\<lambda>r. fieldFalsy (groupField r)) overallRows"
    by (simp add: list_all_iff)
  from C10_overall_line_present [OF example_payload h]
  show ?thesis
    using example_payload l by (simp add: Bex_def)
qed

lemma fst_addSequences:
  "list_all2 (list_all2 (\<lambda>r r'. r' = r \<or> r' = setOverall r)) ss
     (fst (addSequences inherited ss tls))"
proof (induction ss arbitrary: tls)
  case Nil
  then show ?case by simp
next
  case (Cons s ss)
  have same: "list_all2 (\<lambda>r r'. r' = r \<or> r' = setOverall r) xs xs" for xs :: "('a, 'b) RawRow list"
    by (simp add: list_all2_refl)
  have sames: "list_all2 (list_all2 (\<lambda>r r'. r' = r \<or> r' = setOverall r)) xss xss"
    for xss :: "('a, 'b) RawRow list list"
    by (simp add: list_all2_refl)
  show ?case
  proof (cases "length s < 2")
    case True
    then show ?thesis
      using Cons.IH [of tls] same [of s] by (auto split: prod.splits)
  next
    case False
    obtain s' res where step: "addResults inherited s tls = (s', res)"
      by (cases "addResults inherited s tls")
    then have s': "list_all2 (\<lambda>r r'. r' = r \<or> r' = setOverall r) s s'"
      using fst_addResults [of s inherited tls] by simp
    show ?thesis
    proof (cases res)
      case (Inl e)
      then show ?thesis
        using False step s' sames [of ss] by simp
    next
      case (Inr tls')
      then show ?thesis
        using False step s' Cons.IH [of tls'] by (auto split: prod.splits)
    qed
  qed
qed

lemma fst_mapTo:
  "list_all2 (list_all2 (\<lambda>r r'. r' = r \<or> r' = setOverall r)) jsonArrays
     (fst (mapToKpiStateOrNull m inherited jsonArrays))"
proof -
  have sames: "list_all2 (list_all2 (\<lambda>r r'. r' = r \<or> r' = setOverall r)) jsonArrays jsonArrays"
    by (simp add: list_all2_refl)
  have "fst (mapToKpiStateOrNull m inherited jsonArrays) = jsonArrays
      \<or> fst (mapToKpiStateOrNull m inherited jsonArrays) = fst (addSequences inherited jsonArrays [])"
    by (auto simp add: mapToKpiStateOrNull_def split: list.splits prod.splits sum.splits
        simp del: addSequences.simps)
  then show ?thesis
    using sames fst_addSequences [of jsonArrays inherited "[]"] by auto
qed

lemma setOverall_fields:
  "DATE (setOverall r) = DATE r \<and> AVG_BUILD_TIME (setOverall r) = AVG_BUILD_TIME r
   \<and> (groupField (setOverall r) = groupField r
       \<or> (fieldFalsy (groupField r) \<and> groupField (setOverall r) = Some ''Overall''))"
  by (simp add: setOverall_def)

lemma mapTo_null_rows:
  assumes "snd (mapToKpiStateOrNull m inherited jsonArrays) = Inr None"
  shows "fst (mapToKpiStateOrNull m inherited jsonArrays) = jsonArrays"
  using assms
  by (auto simp add: mapToKpiStateOrNull_def split: list.splits prod.splits sum.splits if_splits
      simp del: addSequences.simps)

text \<open>
  C4 as stated fails: the first row of the overall sequence comes in without a group
  field and leaves the call with the group field \<open>Overall\<close>.
\<close>

theorem C4_rows_written_counterexample:
  "groupField (hd overallRows) = None
   \<and> groupField (hd (hd (fst (mapToKpiStateOrNull exampleMapper arrayBuiltins
        [overallRows, groupedRows])))) = Some ''Overall''"
proof -
  have "fst (mapToKpiStateOrNull exampleMapper arrayBuiltins [overallRows, groupedRows])
      = rowsAfter [overallRows, groupedRows]"
    by (simp add: example_payload)
  then show ?thesis
    by (simp add: rowsAfter_def overallRows_def row_def setOverall_def fieldFalsy_def)
qed

text \<open>
  C4, amended. \<^verbatim>\<open>mapToKpiStateOrNull\<close> never changes the number or the order of the
  rows, nor the \<^verbatim>\<open>DATE\<close> or the \<^verbatim>\<open>AVG_BUILD_TIME\<close> of a row; the only field it
  writes is the group field, and only to replace an absent or empty one by \<open>Overall\<close>.
  When it returns null no row is changed; when it returns a payload, exactly the rows of
  the sequences with at least 2 rows have had an absent or empty group field set to
  \<open>Overall\<close>.
\<close>

theorem C4_only_group_field_written:
  "list_all2 (list_all2 (\<lambda>r r'.
       DATE r' = DATE r \<and> AVG_BUILD_TIME r' = AVG_BUILD_TIME r
     \<and> (groupField r' = groupField r
         \<or> (fieldFalsy (groupField r) \<and> groupField r' = Some ''Overall''))))
     jsonArrays (fst (mapToKpiStateOrNull m inherited jsonArrays))
   \<and> (snd (mapToKpiStateOrNull m inherited jsonArrays) = Inr None \<longrightarrow>
        fst (mapToKpiStateOrNull m inherited jsonArrays) = jsonArrays)
   \<and> (\<forall>p. snd (mapToKpiStateOrNull m inherited jsonArrays) = Inr (Some p) \<longrightarrow>
        fst (mapToKpiStateOrNull m inherited jsonArrays)
          = map (\<lambda>s. if length s < 2 then s else map setOverall s) jsonArrays)"
proof -
  have "list_all2 (list_all2 (\<lambda>r r'.
       DATE r' = DATE r \<and> AVG_BUILD_TIME r' = AVG_BUILD_TIME r
     \<and> (groupField r' = groupField r
         \<or> (fieldFalsy (groupField r) \<and> groupField r' = Some ''Overall''))))
     jsonArrays (fst (mapToKpiStateOrNull m inherited jsonArrays))"
    using fst_mapTo [of jsonArrays m inherited]
  proof (rule list_all2_mono)
    fix s s' :: "('a, 'b) RawRow list"
    assume "list_all2 (\<lambda>r r'. r' = r \<or> r' = setOverall r) s s'"
    then show "list_all2 (\<lambda>r r'.
       DATE r' = DATE r \<and> AVG_BUILD_TIME r' = AVG_BUILD_TIME r
     \<and> (groupField r' = groupField r
         \<or> (fieldFalsy (groupField r) \<and> groupField r' = Some ''Overall''))) s s'"
    proof (rule list_all2_mono)
      fix r r' :: "('a, 'b) RawRow"
      assume "r' = r \<or> r' = setOverall r"
      then show "DATE r' = DATE r \<and> AVG_BUILD_TIME r' = AVG_BUILD_TIME r
        \<and> (groupField r' = groupField r
         \<or> (fieldFalsy (groupField r) \<and> groupField r' = Some ''Overall''))"
        using setOverall_fields [of r] by auto
    qed
  qed
  moreover have "snd (mapToKpiStateOrNull m inherited jsonArrays) = Inr None \<longrightarrow>
        fst (mapToKpiStateOrNull m inherited jsonArrays) = jsonArrays"
    using mapTo_null_rows by blast
  moreover have "\<forall>p. snd (mapToKpiStateOrNull m inherited jsonArrays) = Inr (Some p) \<longrightarrow>
        fst (mapToKpiStateOrNull m inherited jsonArrays)
          = map (\<lambda>s. if length s < 2 then s else map setOverall s) jsonArrays"
  proof (intro allI impI)
    fix p
    assume "snd (mapToKpiStateOrNull m inherited jsonArrays) = Inr (Some p)"
    then have "mapToKpiStateOrNull m inherited jsonArrays
        = (fst (mapToKpiStateOrNull m inherited jsonArrays), Inr (Some p))"
      by (simp add: prod_eq_iff)
    then have "fst (mapToKpiStateOrNull m inherited jsonArrays) = rowsAfter jsonArrays"
      by (rule mapTo_payloadD(3))
    then show "fst (mapToKpiStateOrNull m inherited jsonArrays)
          = map (\<lambda>s. if length s < 2 then s else map setOverall s) jsonArrays"
      by (simp add: rowsAfter_def)
  qed
  ultimately show ?thesis
    by blast
qed

theorem C4_only_group_field_written_witness:
  "fst (mapToKpiStateOrNull exampleMapper arrayBuiltins [overallRows, groupedRows])
     = [[row ''2018-01-01'' (Some 5) (Some ''Overall''), row ''2018-01-02'' (Some 7) (Some ''Overall'')],
        [row ''2018-01-01'' None (Some ''B''), row ''2018-01-02'' (Some 4) (Some ''B''),
         row ''2018-01-01'' (Some 9) (Some ''A''), row ''2018-01-02'' (Some 8) (Some ''A''),
         row ''2018-01-03'' (Some 6) (Some ''Overall''), row ''2018-01-03'' (Some 3) (Some ''B'')]]
   \<and> fst (mapToKpiStateOrNull exampleMapper arrayBuiltins [overallRows, drop 1 groupedRows])
     = [overallRows, drop 1 groupedRows]"
proof -
  have n: "snd (mapToKpiStateOrNull exampleMapper arrayBuiltins [overallRows, drop 1 groupedRows])
      = Inr None"
    by (simp add: mapTo_null groupedRows_def)
  have a: "fst (mapToKpiStateOrNull exampleMapper arrayBuiltins [overallRows, drop 1 groupedRows])
     = [overallRows, drop 1 groupedRows]"
    using C4_only_group_field_written [of "[overallRows, drop 1 groupedRows]" exampleMapper arrayBuiltins] n
    by blast
  have "snd (mapToKpiStateOrNull exampleMapper arrayBuiltins [overallRows, groupedRows])
      = Inr (Some (kpiState exampleMapper (map (lineFor (processedRows [overallRows, groupedRows]))
         (forInKeys (firstSightings (map groupName (processedRows [overallRows, groupedRows])))))))"
    by (simp add: example_payload)
  then have "fst (mapToKpiStateOrNull exampleMapper arrayBuiltins [overallRows, groupedRows])
      = map (\<lambda>s. if length s < 2 then s else map setOverall s) [overallRows, groupedRows]"
    using C4_only_group_field_written [of "[overallRows, groupedRows]" exampleMapper arrayBuiltins]
    by blast
  then have b: "fst (mapToKpiStateOrNull exampleMapper arrayBuiltins [overallRows, groupedRows])
     = [[row ''2018-01-01'' (Some 5) (Some ''Overall''), row ''2018-01-02'' (Some 7) (Some ''Overall'')],
        [row ''2018-01-01'' None (Some ''B''), row ''2018-01-02'' (Some 4) (Some ''B''),
         row ''2018-01-01'' (Some 9) (Some ''A''), row ''2018-01-02'' (Some 8) (Some ''A''),
         row ''2018-01-03'' (Some 6) (Some ''Overall''), row ''2018-01-03'' (Some 3) (Some ''B'')]]"
    by (simp add: overallRows_def groupedRows_def row_def setOverall_def fieldFalsy_def)
  show ?thesis
    using a b by simp
qed

lemma addResults_append:
  "snd (addResults inherited (xs @ ys) tls) =
     (case snd (addResults inherited xs tls) of
        Inl e \<Rightarrow> Inl e
      | Inr tls' \<Rightarrow> snd (addResults inherited ys tls'))"
proof (induction xs arbitrary: tls)
  case Nil
  then show ?case by simp
next
  case (Cons r xs)
  obtain r' res where step: "addResult inherited r tls = (r', res)"
    by (cases "addResult inherited r tls")
  show ?case
  proof (cases res)
    case (Inl e)
    then show ?thesis using step by simp
  next
    case (Inr tls')
    then show ?thesis
      using step Cons.IH [of tls'] by (auto split: prod.splits)
  qed
qed

lemma addSequences_rows:
  "snd (addSequences inherited ss tls) = snd (addResults inherited (processedRows ss) tls)"
proof (induction ss arbitrary: tls)
  case Nil
  then show ?case by (simp add: processedRows_def)
next
  case (Cons s ss)
  show ?case
  proof (cases "length s < 2")
    case True
    then show ?thesis
      using Cons.IH [of tls] by (auto simp add: processedRows_Cons split: prod.splits)
  next
    case False
    obtain s' res where step: "addResults inherited s tls = (s', res)"
      by (cases "addResults inherited s tls")
    show ?thesis
    proof (cases res)
      case (Inl e)
      then show ?thesis
        using False step by (simp add: processedRows_Cons addResults_append)
    next
      case (Inr tls')
      then show ?thesis
        using False step Cons.IH [of tls']
        by (auto simp add: processedRows_Cons addResults_append split: prod.splits)
    qed
  qed
qed

lemma short_untouched:
  "list_all2 (\<lambda>s s'. length s < 2 \<longrightarrow> s' = s) ss (fst (addSequences inherited ss tls))"
proof (induction ss arbitrary: tls)
  case Nil
  then show ?case by simp
next
  case (Cons s ss)
  have same: "list_all2 (\<lambda>s s'. length s < 2 \<longrightarrow> s' = s) xss xss"
    for xss :: "('a, 'b) RawRow list list"
    by (simp add: list_all2_refl)
  show ?case
  proof (cases "length s < 2")
    case True
    then show ?thesis
      using Cons.IH [of tls] by (auto split: prod.splits)
  next
    case False
    obtain s' res where step: "addResults inherited s tls = (s', res)"
      by (cases "addResults inherited s tls")
    show ?thesis
    proof (cases res)
      case (Inl e)
      then show ?thesis
        using False step same [of ss] by simp
    next
      case (Inr tls')
      then show ?thesis
        using False step Cons.IH [of tls'] by (auto split: prod.splits)
    qed
  qed
qed

lemma indicator_sum:
  "distinct ks \<Longrightarrow> (\<Sum>k\<leftarrow>ks. if a = k then 1 else 0) = (if a \<in> set ks then 1 else (0::nat))"
  by (induction ks) auto

lemma points_by_group:
  "distinct ks \<Longrightarrow> f ` set ps \<subseteq> set ks \<Longrightarrow>
   (\<Sum>k\<leftarrow>ks. length (filter (\<lambda>r. f r = k) ps)) = length ps"
proof (induction ps)
  case Nil
  then show ?case by simp
next
  case (Cons r ps)
  have "(\<Sum>k\<leftarrow>ks. length (filter (\<lambda>r'. f r' = k) (r # ps)))
      = (\<Sum>k\<leftarrow>ks. (if f r = k then 1 else 0) + length (filter (\<lambda>r'. f r' = k) ps))"
    by (intro arg_cong [where f = sum_list] map_cong) simp_all
  also have "\<dots> = (\<Sum>k\<leftarrow>ks. if f r = k then 1 else 0)
      + (\<Sum>k\<leftarrow>ks. length (filter (\<lambda>r'. f r' = k) ps))"
    by (simp add: sum_list_addf)
  also have "\<dots> = 1 + length ps"
    using Cons by (simp add: indicator_sum)
  finally show ?case by simp
qed

lemma payload_points:
  assumes "mapToKpiStateOrNull m inherited jsonArrays = (rows, Inr (Some p))"
  shows "(\<Sum>t\<leftarrow>data p. length (xValues t)) = length (processedRows jsonArrays)"
proof -
  let ?ps = "processedRows jsonArrays"
  let ?ks = "forInKeys (firstSightings (map groupName ?ps))"
  have p: "data p = map (lineFor ?ps) ?ks"
    using mapTo_payloadD(4) [OF assms] by (simp add: kpiState_def)
  have "(\<Sum>t\<leftarrow>data p. length (xValues t))
      = (\<Sum>k\<leftarrow>?ks. length (filter (\<lambda>r. groupName r = k) ?ps))"
    by (simp add: p lineFor_def comp_def)
  also have "\<dots> = length ?ps"
    by (intro points_by_group)
       (simp_all add: distinct_forInKeys distinct_firstSightings set_forInKeys set_firstSightings)
  finally show ?thesis .
qed

text \<open>
  C9. The assembly loop skips every row sequence with fewer than 2 rows, whatever the
  gate's thresholds 2 and 6: from any state of \<^verbatim>\<open>traceLines\<close>, looping over the
  sequences gives what processing, row by row, the rows of the sequences with at least
  2 rows gives; a sequence with fewer than 2 rows is left as it was; and a returned
  payload holds as many points as the sequences with at least 2 rows have rows.
\<close>

theorem C9_short_sequences_skipped:
  "snd (addSequences inherited jsonArrays tls)
      = snd (addResults inherited (concat (filter (\<lambda>s. 2 \<le> length s) jsonArrays)) tls)
   \<and> list_all2 (\<lambda>s s'. length s < 2 \<longrightarrow> s' = s) jsonArrays
        (fst (addSequences inherited jsonArrays tls))
   \<and> (\<forall>rows p. mapToKpiStateOrNull m inherited jsonArrays = (rows, Inr (Some p)) \<longrightarrow>
        (\<Sum>t\<leftarrow>data p. length (xValues t))
          = length (concat (filter (\<lambda>s. 2 \<le> length s) jsonArrays)))"
  using addSequences_rows [of inherited jsonArrays tls]
    short_untouched [of jsonArrays inherited tls]
    payload_points [of m inherited jsonArrays]
  by (simp add: processedRows_def)

lemma with_short_payload:
  "mapToKpiStateOrNull exampleMapper arrayBuiltins [overallRows, groupedRows, shortRows] =
     (rowsAfter [overallRows, groupedRows, shortRows],
      Inr (Some (kpiState exampleMapper
         (map (lineFor (processedRows [overallRows, groupedRows, shortRows]))
         (forInKeys (firstSightings (map groupName
            (processedRows [overallRows, groupedRows, shortRows]))))))))"
  by (rule mapTo_payload)
     (simp_all add: overallRows_def groupedRows_def shortRows_def processedRows_def row_def
        groupName_def reserved_def arrayBuiltins_def)

theorem C9_short_sequences_skipped_witness:
  "(\<exists>rows p. mapToKpiStateOrNull exampleMapper arrayBuiltins [overallRows, groupedRows, shortRows]
        = (rows, Inr (Some p))
      \<and> (\<Sum>t\<leftarrow>data p. length (xValues t)) = 8)
   \<and> length shortRows = 1
   \<and> fst (addSequences arrayBuiltins [overallRows, groupedRows, shortRows] []) ! 2 = shortRows
   \<and> snd (addSequences arrayBuiltins [overallRows, groupedRows, shortRows] [])
      = snd (addResults arrayBuiltins (overallRows @ groupedRows) [])"
proof -
  note c = C9_short_sequences_skipped [of arrayBuiltins "[overallRows, groupedRows, shortRows]" "[]" exampleMapper]
  have kept: "concat (filter (\<lambda>s. 2 \<le> length s) [overallRows, groupedRows, shortRows])
      = overallRows @ groupedRows"
    by (simp add: overallRows_def groupedRows_def shortRows_def)
  have n: "length (overallRows @ groupedRows) = 8"
    by (simp add: overallRows_def groupedRows_def)
  from c have "\<forall>rows p. mapToKpiStateOrNull exampleMapper arrayBuiltins [overallRows, groupedRows, shortRows]
        = (rows, Inr (Some p)) \<longrightarrow> (\<Sum>t\<leftarrow>data p. length (xValues t)) = 8"
    by (simp only: kept n) blast
  then have a: "\<exists>rows p. mapToKpiStateOrNull exampleMapper arrayBuiltins [overallRows, groupedRows, shortRows]
        = (rows, Inr (Some p)) \<and> (\<Sum>t\<leftarrow>data p. length (xValues t)) = 8"
    using with_short_payload by blast
  have l: "length shortRows = 1"
    by (simp add: shortRows_def)
  from c have "list_all2 (\<lambda>s s'. length s < 2 \<longrightarrow> s' = s) [overallRows, groupedRows, shortRows]
        (fst (addSequences arrayBuiltins [overallRows, groupedRows, shortRows] []))"
    by blast
  then have "length ([overallRows, groupedRows, shortRows] ! 2) < 2 \<longrightarrow>
      fst (addSequences arrayBuiltins [overallRows, groupedRows, shortRows] []) ! 2
        = [overallRows, groupedRows, shortRows] ! 2"
    by (rule list_all2_nthD) simp
  then have b: "fst (addSequences arrayBuiltins [overallRows, groupedRows, shortRows] []) ! 2 = shortRows"
    using l by simp
  from c have d: "snd (addSequences arrayBuiltins [overallRows, groupedRows, shortRows] [])
      = snd (addResults arrayBuiltins (overallRows @ groupedRows) [])"
    by (simp only: kept)
  show ?thesis
    using a l b d by blast
qed

text \<open>
  C1. With fewer than 2 overall rows or fewer than 6 grouped rows the call returns null
  and leaves the rows alone (\<open>mapTo_null\<close>), and past the gate it returns a payload
  when no resolved group name is a name the array \<^verbatim>\<open>traceLines\<close> already answers to
  (\<open>mapTo_payload\<close>). It does not return a payload for every input past the gate: with
  2 overall rows and 6 grouped rows of a group named \<open>length\<close>, the lookup
  \<^verbatim>\<open>traceLines["length"]\<close> reads the array's length 0, and the assignment of a trace
  line to it throws a RangeError.
\<close>

theorem C1_length_group_throws:
  "\<not> length overallRows < 2 \<and> \<not> length lengthRows < 6
   \<and> snd (mapToKpiStateOrNull exampleMapper arrayBuiltins [overallRows, lengthRows])
       = Inl RangeError"
proof -
  have gate: "\<not> length overallRows < 2 \<and> \<not> length lengthRows < 6"
    by (simp add: overallRows_def lengthRows_def)
  have "snd (addSequences arrayBuiltins [overallRows, lengthRows] []) = Inl RangeError"
    by (simp add: overallRows_def lengthRows_def row_def addResult_def Let_def setOverall_def
        fieldFalsy_def groupKey_def ensureTraceLine_def getProp_def setProp_def pushPoint_def
        GetTraceLineData_def arrayBuiltins_def arrayLength_def not_index_Overall)
  then show ?thesis
    using gate
    by (cases "addSequences arrayBuiltins [overallRows, lengthRows] []")
       (simp add: mapTo_assembles del: addSequences.simps)
qed

section \<open>The claims about the queries and \<^verbatim>\<open>KpiMapper\<close>\<close>

lemma floor_half: "\<lfloor>rat_of_int k / 2\<rfloor> = k div 2"
proof -
  have "\<lfloor>rat_of_int k / rat_of_int 2\<rfloor> = k div 2"
    by (rule floor_divide_of_int_eq)
  then show ?thesis by simp
qed

text \<open>
  C5. For every \<open>dateRange\<close>, \<^verbatim>\<open>getQueryStrings\<close> derives \<open>nPrevDays\<close> as
  the moving average period of \<open>dateRange\<close> minus 1 and \<open>minPrevDayData\<close> as the floor
  of half that period (which is the period \<open>div\<close> 2), and these are the two values it
  writes into the query texts.
\<close>

theorem C5_lookback_and_coverage:
  "movingAveragePeriod GetPeriod dateRange = GetPeriod dateRange
   \<and> nPrevDays GetPeriod dateRange = GetPeriod dateRange - 1
   \<and> minPrevDayData GetPeriod dateRange = \<lfloor>real_of_int (GetPeriod dateRange) / 2\<rfloor>
   \<and> minPrevDayData GetPeriod dateRange = GetPeriod dateRange div 2
   \<and> getQueryStrings GetPeriod m from0 to0 dateRange =
       [overallQuery m from0 to0 (GetPeriod dateRange - 1),
        groupedQuery m from0 to0 (GetPeriod dateRange - 1) (GetPeriod dateRange div 2)]"
proof -
  have "\<lfloor>real_of_int (GetPeriod dateRange) / real_of_int 2\<rfloor> = GetPeriod dateRange div 2"
    by (rule floor_divide_of_int_eq)
  then have "\<lfloor>real_of_int (GetPeriod dateRange) / 2\<rfloor> = GetPeriod dateRange div 2"
    by simp
  then show ?thesis
    by (simp add: getQueryStrings_def nPrevDays_def minPrevDayData_def movingAveragePeriod_def
        floor_half)
qed

theorem C5_lookback_and_coverage_witness:
  "nPrevDays (\<lambda>d. 7) 30 = 6 \<and> minPrevDayData (\<lambda>d. 7) 30 = 3
   \<and> getQueryStrings (\<lambda>d. 7) exampleMapper ''2018-01-01'' ''2018-01-30'' 30 =
       [overallQuery exampleMapper ''2018-01-01'' ''2018-01-30'' 6,
        groupedQuery exampleMapper ''2018-01-01'' ''2018-01-30'' 6 3]"
  using C5_lookback_and_coverage [of "\<lambda>d. 7" 30 exampleMapper "''2018-01-01''" "''2018-01-30''"]
  by simp


lemma diffDays_whole:
  "diffDays (b * msPerDay + t) (a * msPerDay + t) = b - a"
proof -
  have pos: "(0::int) < msPerDay" by (simp add: msPerDay_def)
  have d1: "b * msPerDay + t - (a * msPerDay + t) = (b - a) * msPerDay"
    by (simp add: algebra_simps)
  have d2: "a * msPerDay + t - (b * msPerDay + t) = (a - b) * msPerDay"
    by (simp add: algebra_simps)
  show ?thesis
  proof (cases "b - a < 0")
    case True
    then have "(b - a) * msPerDay < 0"
      using pos by (simp add: mult_less_0_iff)
    then show ?thesis
      using pos by (simp add: diffDays_def d1 d2)
  next
    case False
    then have "\<not> (b - a) * msPerDay < 0"
      using pos by (simp add: mult_less_0_iff)
    then show ?thesis
      using pos by (simp add: diffDays_def d1 d2)
  qed
qed

lemma diffDays_bracket:
  assumes "from0 \<le> to0"
  shows "diffDays to0 from0 * msPerDay \<le> to0 - from0
    \<and> to0 - from0 < (diffDays to0 from0 + 1) * msPerDay"
proof -
  have pos: "(0::int) < msPerDay" by (simp add: msPerDay_def)
  have d: "diffDays to0 from0 = (to0 - from0) div msPerDay"
    using assms by (simp add: diffDays_def)
  define x where "x = to0 - from0"
  have split: "x = x div msPerDay * msPerDay + x mod msPerDay"
    by simp
  have lo: "0 \<le> x mod msPerDay" and hi: "x mod msPerDay < msPerDay"
    using pos by simp_all
  have "x div msPerDay * msPerDay \<le> x"
    using split lo by linarith
  moreover have "x < (x div msPerDay + 1) * msPerDay"
  proof -
    have "x < x div msPerDay * msPerDay + msPerDay"
      using split hi by linarith
    then show ?thesis
      by (simp add: algebra_simps)
  qed
  ultimately show ?thesis
    by (simp add: d x_def)
qed

lemma xaxis_of_payload:
  assumes "snd (mapToKpiStateOrNull m inherited jsonArrays) = Inr (Some p)"
  shows "xaxis p = (chartFromDate m, chartToDate m)"
proof -
  have "mapToKpiStateOrNull m inherited jsonArrays
      = (fst (mapToKpiStateOrNull m inherited jsonArrays), Inr (Some p))"
    using assms by (simp add: prod_eq_iff)
  then have "p = kpiState m (map (lineFor (processedRows jsonArrays))
         (forInKeys (firstSightings (map groupName (processedRows jsonArrays)))))"
    by (rule mapTo_payloadD(4))
  then show ?thesis
    by (simp add: kpiState_def)
qed

text \<open>
  C6. For every pair of dates, \<^verbatim>\<open>GetKpiStateOrNull\<close> sets the chart bounds to the
  formatted unshifted dates and calls \<^verbatim>\<open>getQueryStrings\<close> with the from-date moved
  back by exactly 2 days (172800000 ms), the unshifted to-date, and
  \<^verbatim>\<open>GetDateRange(from, to)\<close> of the unshifted dates. That range is the number of
  whole days from \<open>from\<close> to \<open>to\<close> plus 1: \<open>b - a + 1\<close> for dates \<open>a\<close> and \<open>b\<close>
  days after the epoch at the same time of day. A payload returned by the mapper's
  \<^verbatim>\<open>mapToKpiStateOrNull\<close> carries the unshifted chart bounds as its x-axis.
\<close>

theorem C6_query_window_and_range:
  "fst (GetKpiStateOrNull formatCharts formatMysql getQueryStrings0 mapToKpiStateOrNull0 Query
          m from0 to0)
      = m\<lparr>chartFromDate := formatCharts from0, chartToDate := formatCharts to0\<rparr>
   \<and> snd (GetKpiStateOrNull formatCharts formatMysql getQueryStrings0 mapToKpiStateOrNull0 Query
          m from0 to0)
      = (case runQueries Query
               (getQueryStrings0
                  (m\<lparr>chartFromDate := formatCharts from0, chartToDate := formatCharts to0\<rparr>)
                  (formatMysql (from0 - 2 * 86400000)) (formatMysql to0)
                  (GetDateRange from0 to0)) of
           Inl err \<Rightarrow> Inl err
         | Inr jsonArrayResults \<Rightarrow>
             snd (mapToKpiStateOrNull0
                    (m\<lparr>chartFromDate := formatCharts from0, chartToDate := formatCharts to0\<rparr>)
                    jsonArrayResults))
   \<and> GetDateRange (a * 86400000 + t) (b * 86400000 + t) = b - a + 1
   \<and> (from0 \<le> to0 \<longrightarrow>
        (GetDateRange from0 to0 - 1) * 86400000 \<le> to0 - from0
        \<and> to0 - from0 < GetDateRange from0 to0 * 86400000)
   \<and> (\<forall>p. snd (GetKpiStateOrNull formatCharts formatMysql getQueryStrings0
                  (\<lambda>m'. mapToKpiStateOrNull m' inherited) Query' m from0 to0) = Inr (Some p) \<longrightarrow>
          xaxis p = (formatCharts from0, formatCharts to0))"
proof -
  let ?m = "m\<lparr>chartFromDate := formatCharts from0, chartToDate := formatCharts to0\<rparr>"
  have a: "fst (GetKpiStateOrNull formatCharts formatMysql getQueryStrings0 mapToKpiStateOrNull0
      Query m from0 to0) = ?m"
    by (simp add: GetKpiStateOrNull_def Let_def)
  have b: "snd (GetKpiStateOrNull formatCharts formatMysql getQueryStrings0 mapToKpiStateOrNull0
      Query m from0 to0)
      = (case runQueries Query
               (getQueryStrings0 ?m (formatMysql (from0 - 2 * 86400000)) (formatMysql to0)
                  (GetDateRange from0 to0)) of
           Inl err \<Rightarrow> Inl err
         | Inr jsonArrayResults \<Rightarrow> snd (mapToKpiStateOrNull0 ?m jsonArrayResults))"
    by (simp add: GetKpiStateOrNull_def Let_def msPerDay_def)
  have c: "GetDateRange (a * 86400000 + t) (b * 86400000 + t) = b - a + 1"
    using diffDays_whole [of b t a] by (simp add: GetDateRange_def msPerDay_def)
  have d: "from0 \<le> to0 \<longrightarrow>
        (GetDateRange from0 to0 - 1) * 86400000 \<le> to0 - from0
        \<and> to0 - from0 < GetDateRange from0 to0 * 86400000"
    using diffDays_bracket [of from0 to0] by (simp add: GetDateRange_def msPerDay_def)
  have e: "xaxis p = (formatCharts from0, formatCharts to0)"
    if "snd (GetKpiStateOrNull formatCharts formatMysql getQueryStrings0
                  (\<lambda>m'. mapToKpiStateOrNull m' inherited) Query' m from0 to0) = Inr (Some p)"
    for p
  proof -
    from that obtain rs
      where "snd (mapToKpiStateOrNull ?m inherited rs) = Inr (Some p)"
      by (auto simp add: GetKpiStateOrNull_def Let_def split: sum.splits)
    then have "xaxis p = (chartFromDate ?m, chartToDate ?m)"
      by (rule xaxis_of_payload)
    then show ?thesis by simp
  qed
  show ?thesis
    using a b c d e by blast
qed


theorem C6_query_window_and_range_witness:
  "GetDateRange exampleFrom exampleTo = 3
   \<and> exampleFrom \<le> exampleTo
   \<and> 2 * 86400000 \<le> exampleTo - exampleFrom \<and> exampleTo - exampleFrom < 3 * 86400000
   \<and> (\<exists>p. snd (GetKpiStateOrNull showInt showInt exampleQueries
                  (\<lambda>m'. mapToKpiStateOrNull m' arrayBuiltins) exampleStorage
                  exampleMapper exampleFrom exampleTo) = Inr (Some p)
          \<and> xaxis p = (showInt exampleFrom, showInt exampleTo))
   \<and> chartFromDate (fst (GetKpiStateOrNull showInt showInt exampleQueries
                  (\<lambda>m'. mapToKpiStateOrNull m' arrayBuiltins) exampleStorage
                  exampleMapper exampleFrom exampleTo)) = showInt exampleFrom"
proof -
  note c = C6_query_window_and_range [of showInt showInt exampleQueries
      "\<lambda>m'. mapToKpiStateOrNull m' arrayBuiltins" exampleStorage exampleMapper
      exampleFrom exampleTo 17532 0 17534 arrayBuiltins exampleStorage]
  let ?m = "exampleMapper\<lparr>chartFromDate := showInt exampleFrom, chartToDate := showInt exampleTo\<rparr>"
  have le: "exampleFrom \<le> exampleTo"
    by (simp add: exampleFrom_def exampleTo_def)
  from c have "GetDateRange (17532 * 86400000 + 0) (17534 * 86400000 + 0) = 17534 - 17532 + 1"
    by blast
  then have r: "GetDateRange exampleFrom exampleTo = 3"
    by (simp add: exampleFrom_def exampleTo_def)
  from c le have "(GetDateRange exampleFrom exampleTo - 1) * 86400000 \<le> exampleTo - exampleFrom
        \<and> exampleTo - exampleFrom < GetDateRange exampleFrom exampleTo * 86400000"
    by blast
  then have br: "2 * 86400000 \<le> exampleTo - exampleFrom \<and> exampleTo - exampleFrom < 3 * 86400000"
    by (simp add: r)
  have q: "runQueries exampleStorage [''overall'', ''grouped''] = Inr [overallRows, groupedRows]"
    by (simp add: exampleStorage_def)
  have pay: "mapToKpiStateOrNull ?m arrayBuiltins [overallRows, groupedRows] =
     (rowsAfter [overallRows, groupedRows],
      Inr (Some (kpiState ?m (map (lineFor (processedRows [overallRows, groupedRows]))
         (forInKeys (firstSightings (map groupName (processedRows [overallRows, groupedRows]))))))))"
    by (rule mapTo_payload)
       (simp_all add: overallRows_def groupedRows_def processedRows_def row_def groupName_def
          reserved_def arrayBuiltins_def)
  from c have "snd (GetKpiStateOrNull showInt showInt exampleQueries
                  (\<lambda>m'. mapToKpiStateOrNull m' arrayBuiltins) exampleStorage
                  exampleMapper exampleFrom exampleTo)
      = (case runQueries exampleStorage
               (exampleQueries ?m (showInt (exampleFrom - 2 * 86400000)) (showInt exampleTo)
                  (GetDateRange exampleFrom exampleTo)) of
           Inl err \<Rightarrow> Inl err
         | Inr jsonArrayResults \<Rightarrow> snd (mapToKpiStateOrNull ?m arrayBuiltins jsonArrayResults))"
    by blast
  then have res: "snd (GetKpiStateOrNull showInt showInt exampleQueries
                  (\<lambda>m'. mapToKpiStateOrNull m' arrayBuiltins) exampleStorage
                  exampleMapper exampleFrom exampleTo)
      = Inr (Some (kpiState ?m (map (lineFor (processedRows [overallRows, groupedRows]))
         (forInKeys (firstSightings (map groupName (processedRows [overallRows, groupedRows])))))))"
    by (simp only: exampleQueries_def q sum.case pay snd_conv)
  from c have "\<forall>p. snd (GetKpiStateOrNull showInt showInt exampleQueries
                  (\<lambda>m'. mapToKpiStateOrNull m' arrayBuiltins) exampleStorage
                  exampleMapper exampleFrom exampleTo) = Inr (Some p) \<longrightarrow>
          xaxis p = (showInt exampleFrom, showInt exampleTo)"
    by blast
  then have ex: "\<exists>p. snd (GetKpiStateOrNull showInt showInt exampleQueries
                  (\<lambda>m'. mapToKpiStateOrNull m' arrayBuiltins) exampleStorage
                  exampleMapper exampleFrom exampleTo) = Inr (Some p)
          \<and> xaxis p = (showInt exampleFrom, showInt exampleTo)"
    using res by blast
  from c have "fst (GetKpiStateOrNull showInt showInt exampleQueries
                  (\<lambda>m'. mapToKpiStateOrNull m' arrayBuiltins) exampleStorage
                  exampleMapper exampleFrom exampleTo) = ?m"
    by blast
  then have f: "chartFromDate (fst (GetKpiStateOrNull showInt showInt exampleQueries
                  (\<lambda>m'. mapToKpiStateOrNull m' arrayBuiltins) exampleStorage
                  exampleMapper exampleFrom exampleTo)) = showInt exampleFrom"
    by simp
  show ?thesis
    using r le br ex f by blast
qed

lemma GetStartDate_storage_fails:
  "Query (getStartDateQuery m) = Inl e \<Longrightarrow> GetStartDate Query newDate m s = (s, Inl e)"
  by (simp add: GetStartDate_def Let_def)

lemma GetStartDate_wrong_count:
  "Query (getStartDateQuery m) = Inr results \<Longrightarrow> length results \<noteq> 1 \<Longrightarrow>
   \<exists>msg. snd (GetStartDate Query newDate m s) = Inl (Error msg)
     \<and> logged (fst (GetStartDate Query newDate m s))
         = logged s @ [(Error msg, ''query: '' @ getStartDateQuery m)]"
  by (simp add: GetStartDate_def Let_def)

lemma GetStartDate_falsy_date:
  "Query (getStartDateQuery m) = Inr [r] \<Longrightarrow> jsFalsy (DATE r) \<Longrightarrow>
   \<exists>msg. snd (GetStartDate Query newDate m s) = Inl (Error msg)
     \<and> logged (fst (GetStartDate Query newDate m s))
         = logged s @ [(Error msg, ''query: '' @ getStartDateQuery m)]"
  by (simp add: GetStartDate_def Let_def)

lemma GetStartDate_date:
  "Query (getStartDateQuery m) = Inr [r] \<Longrightarrow> \<not> jsFalsy (DATE r) \<Longrightarrow>
   GetStartDate Query newDate m s = (s, Inr (newDate (DATE r)))"
  by (simp add: GetStartDate_def Let_def)

lemma GetEndDate_storage_fails:
  "Query (getEndDateQuery m) = Inl e \<Longrightarrow> GetEndDate Query newDate m s = (s, Inl e)"
  by (simp add: GetEndDate_def Let_def)

lemma GetEndDate_wrong_count:
  "Query (getEndDateQuery m) = Inr results \<Longrightarrow> length results \<noteq> 1 \<Longrightarrow>
   \<exists>msg. snd (GetEndDate Query newDate m s) = Inl (Error msg)
     \<and> logged (fst (GetEndDate Query newDate m s))
         = logged s @ [(Error msg, ''query: '' @ getEndDateQuery m)]"
  by (simp add: GetEndDate_def Let_def)

lemma GetEndDate_falsy_date:
  "Query (getEndDateQuery m) = Inr [r] \<Longrightarrow> jsFalsy (DATE r) \<Longrightarrow>
   \<exists>msg. snd (GetEndDate Query newDate m s) = Inl (Error msg)
     \<and> logged (fst (GetEndDate Query newDate m s))
         = logged s @ [(Error msg, ''query: '' @ getEndDateQuery m)]"
  by (simp add: GetEndDate_def Let_def)

lemma GetEndDate_date:
  "Query (getEndDateQuery m) = Inr [r] \<Longrightarrow> \<not> jsFalsy (DATE r) \<Longrightarrow>
   GetEndDate Query newDate m s = (s, Inr (newDate (DATE r)))"
  by (simp add: GetEndDate_def Let_def)

lemma one_row: "length xs = 1 \<Longrightarrow> \<exists>r. xs = [r]"
  by (cases xs) auto

text \<open>
  C7 as stated fails: a single row whose \<^verbatim>\<open>DATE\<close> is present but falsy (here the empty
  string for the start date, the number 0 for the end date) is neither absent nor null,
  yet \<^verbatim>\<open>!results[0].DATE\<close> holds, and the call logs once and throws.
\<close>

theorem C7_falsy_date_counterexample:
  "DATE (dateRow (JsString [])) \<noteq> JsUndefined \<and> DATE (dateRow (JsString [])) \<noteq> JsNull
   \<and> isl (snd (GetStartDate (\<lambda>sql. Inr [dateRow (JsString [])]) newDateOf exampleMapper noOutput))
   \<and> length (logged (fst (GetStartDate (\<lambda>sql. Inr [dateRow (JsString [])]) newDateOf
        exampleMapper noOutput))) = 1
   \<and> DATE (dateRow (JsNumber 0)) \<noteq> JsUndefined \<and> DATE (dateRow (JsNumber 0)) \<noteq> JsNull
   \<and> isl (snd (GetEndDate (\<lambda>sql. Inr [dateRow (JsNumber 0)]) newDateOf exampleMapper noOutput))
   \<and> length (logged (fst (GetEndDate (\<lambda>sql. Inr [dateRow (JsNumber 0)]) newDateOf
        exampleMapper noOutput))) = 1"
  by (simp add: GetStartDate_def GetEndDate_def Let_def dateRow_def noOutput_def)

text \<open>
  C7, amended. When the storage answers the date query with rows, \<^verbatim>\<open>GetStartDate\<close>
  and \<^verbatim>\<open>GetEndDate\<close> throw exactly when the number of rows is not 1 or the one row's
  \<^verbatim>\<open>DATE\<close> is falsy (absent, null, or a present falsy value such as 0 or the empty
  string); each such failure makes exactly one call of \<^verbatim>\<open>Log\<close>, with the error
  thrown and the query; a single row with a truthy \<^verbatim>\<open>DATE\<close> gives
  \<^verbatim>\<open>new Date(DATE)\<close> and no call of \<^verbatim>\<open>Log\<close>. (When the storage itself throws, its
  error is passed on and nothing is logged.)
\<close>

theorem C7_single_row_date:
  "(\<forall>results. Query (getStartDateQuery m) = Inr results \<longrightarrow>
      (isl (snd (GetStartDate Query newDate m s))
         \<longleftrightarrow> (length results \<noteq> 1 \<or> (\<exists>r. results = [r] \<and> jsFalsy (DATE r))))
    \<and> (isl (snd (GetStartDate Query newDate m s)) \<longrightarrow>
         (\<exists>msg. snd (GetStartDate Query newDate m s) = Inl (Error msg)
            \<and> logged (fst (GetStartDate Query newDate m s))
                = logged s @ [(Error msg, ''query: '' @ getStartDateQuery m)]))
    \<and> (\<forall>r. results = [r] \<and> \<not> jsFalsy (DATE r) \<longrightarrow>
         GetStartDate Query newDate m s = (s, Inr (newDate (DATE r)))))
   \<and> (\<forall>results. Query (getEndDateQuery m) = Inr results \<longrightarrow>
      (isl (snd (GetEndDate Query newDate m s))
         \<longleftrightarrow> (length results \<noteq> 1 \<or> (\<exists>r. results = [r] \<and> jsFalsy (DATE r))))
    \<and> (isl (snd (GetEndDate Query newDate m s)) \<longrightarrow>
         (\<exists>msg. snd (GetEndDate Query newDate m s) = Inl (Error msg)
            \<and> logged (fst (GetEndDate Query newDate m s))
                = logged s @ [(Error msg, ''query: '' @ getEndDateQuery m)]))
    \<and> (\<forall>r. results = [r] \<and> \<not> jsFalsy (DATE r) \<longrightarrow>
         GetEndDate Query newDate m s = (s, Inr (newDate (DATE r)))))
   \<and> (\<forall>e. Query (getStartDateQuery m) = Inl e \<longrightarrow> GetStartDate Query newDate m s = (s, Inl e))
   \<and> (\<forall>e. Query (getEndDateQuery m) = Inl e \<longrightarrow> GetEndDate Query newDate m s = (s, Inl e))"
proof -
  have start: "(isl (snd (GetStartDate Query newDate m s))
         \<longleftrightarrow> (length results \<noteq> 1 \<or> (\<exists>r. results = [r] \<and> jsFalsy (DATE r))))
    \<and> (isl (snd (GetStartDate Query newDate m s)) \<longrightarrow>
         (\<exists>msg. snd (GetStartDate Query newDate m s) = Inl (Error msg)
            \<and> logged (fst (GetStartDate Query newDate m s))
                = logged s @ [(Error msg, ''query: '' @ getStartDateQuery m)]))
    \<and> (\<forall>r. results = [r] \<and> \<not> jsFalsy (DATE r) \<longrightarrow>
         GetStartDate Query newDate m s = (s, Inr (newDate (DATE r))))"
    if q: "Query (getStartDateQuery m) = Inr results" for results
  proof (cases "length results = 1")
    case False
    then show ?thesis
      using GetStartDate_wrong_count [of Query m results newDate s] q by auto
  next
    case True
    then obtain r where r: "results = [r]"
      using one_row by blast
    show ?thesis
    proof (cases "jsFalsy (DATE r)")
      case True
      then show ?thesis
        using GetStartDate_falsy_date [of Query m r newDate s] q r by auto
    next
      case False
      then show ?thesis
        using GetStartDate_date [of Query m r newDate s] q r by auto
    qed
  qed
  have "end": "(isl (snd (GetEndDate Query newDate m s))
         \<longleftrightarrow> (length results \<noteq> 1 \<or> (\<exists>r. results = [r] \<and> jsFalsy (DATE r))))
    \<and> (isl (snd (GetEndDate Query newDate m s)) \<longrightarrow>
         (\<exists>msg. snd (GetEndDate Query newDate m s) = Inl (Error msg)
            \<and> logged (fst (GetEndDate Query newDate m s))
                = logged s @ [(Error msg, ''query: '' @ getEndDateQuery m)]))
    \<and> (\<forall>r. results = [r] \<and> \<not> jsFalsy (DATE r) \<longrightarrow>
         GetEndDate Query newDate m s = (s, Inr (newDate (DATE r))))"
    if q: "Query (getEndDateQuery m) = Inr results" for results
  proof (cases "length results = 1")
    case False
    then show ?thesis
      using GetEndDate_wrong_count [of Query m results newDate s] q by auto
  next
    case True
    then obtain r where r: "results = [r]"
      using one_row by blast
    show ?thesis
    proof (cases "jsFalsy (DATE r)")
      case True
      then show ?thesis
        using GetEndDate_falsy_date [of Query m r newDate s] q r by auto
    next
      case False
      then show ?thesis
        using GetEndDate_date [of Query m r newDate s] q r by auto
    qed
  qed
  show ?thesis
    using start "end" GetStartDate_storage_fails [of Query m _ newDate s]
      GetEndDate_storage_fails [of Query m _ newDate s]
    by blast
qed

theorem C7_single_row_date_witness:
  "GetStartDate (\<lambda>sql. Inr [dateRow (JsDate 1514764800000)]) newDateOf exampleMapper noOutput
      = (noOutput, Inr 1514764800000)
   \<and> GetEndDate (\<lambda>sql. Inr [dateRow (JsDate 1514937600000)]) newDateOf exampleMapper noOutput
      = (noOutput, Inr 1514937600000)
   \<and> isl (snd (GetStartDate (\<lambda>sql. Inr ([] :: (js_value, int) RawRow list)) newDateOf
        exampleMapper noOutput))
   \<and> length (logged (fst (GetStartDate (\<lambda>sql. Inr ([] :: (js_value, int) RawRow list)) newDateOf
        exampleMapper noOutput))) = 1
   \<and> isl (snd (GetEndDate (\<lambda>sql. Inr [dateRow JsNull]) newDateOf exampleMapper noOutput))
   \<and> length (logged (fst (GetEndDate (\<lambda>sql. Inr [dateRow JsNull]) newDateOf exampleMapper
        noOutput))) = 1
   \<and> isl (snd (GetEndDate (\<lambda>sql. Inr [dateRow (JsNumber 0)]) newDateOf exampleMapper noOutput))
   \<and> GetStartDate (\<lambda>sql. Inl (StorageError ''down'') :: js_error + (js_value, int) RawRow list)
        newDateOf exampleMapper noOutput
      = (noOutput, Inl (StorageError ''down''))"
proof -
  have a: "GetStartDate (\<lambda>sql. Inr [dateRow (JsDate 1514764800000)]) newDateOf exampleMapper noOutput
      = (noOutput, Inr 1514764800000)"
    using C7_single_row_date [of "\<lambda>sql. Inr [dateRow (JsDate 1514764800000)]" exampleMapper
        newDateOf noOutput]
    by (simp add: dateRow_def newDateOf_def)
  have b: "GetEndDate (\<lambda>sql. Inr [dateRow (JsDate 1514937600000)]) newDateOf exampleMapper noOutput
      = (noOutput, Inr 1514937600000)"
    using C7_single_row_date [of "\<lambda>sql. Inr [dateRow (JsDate 1514937600000)]" exampleMapper
        newDateOf noOutput]
    by (simp add: dateRow_def newDateOf_def)
  have c: "isl (snd (GetStartDate (\<lambda>sql. Inr ([] :: (js_value, int) RawRow list)) newDateOf
        exampleMapper noOutput))
      \<and> length (logged (fst (GetStartDate (\<lambda>sql. Inr ([] :: (js_value, int) RawRow list))
        newDateOf exampleMapper noOutput))) = 1"
    using C7_single_row_date [of "\<lambda>sql. Inr ([] :: (js_value, int) RawRow list)" exampleMapper
        newDateOf noOutput]
    by (auto simp add: noOutput_def)
  have e: "isl (snd (GetEndDate (\<lambda>sql. Inr [dateRow JsNull]) newDateOf exampleMapper noOutput))
      \<and> length (logged (fst (GetEndDate (\<lambda>sql. Inr [dateRow JsNull]) newDateOf exampleMapper
        noOutput))) = 1"
    using C7_single_row_date [of "\<lambda>sql. Inr [dateRow JsNull]" exampleMapper newDateOf noOutput]
    by (auto simp add: dateRow_def noOutput_def)
  have z: "isl (snd (GetEndDate (\<lambda>sql. Inr [dateRow (JsNumber 0)]) newDateOf exampleMapper noOutput))"
    using C7_single_row_date [of "\<lambda>sql. Inr [dateRow (JsNumber 0)]" exampleMapper newDateOf noOutput]
    by (simp add: dateRow_def)
  have f: "GetStartDate (\<lambda>sql. Inl (StorageError ''down'') :: js_error + (js_value, int) RawRow list)
        newDateOf exampleMapper noOutput
      = (noOutput, Inl (StorageError ''down''))"
    using C7_single_row_date [of
        "\<lambda>sql. Inl (StorageError ''down'') :: js_error + (js_value, int) RawRow list"
        exampleMapper newDateOf noOutput]
    by simp
  show ?thesis
    using a b c e z f by simp
qed

end
